theory Spec2Isabelle
  imports Complex_Main "HOL-Library.Sublist"
begin

section \<open>Experiment configuration records\<close>

text \<open>
  The configuration files are YAML documents. A document is a scalar (kept as the text
  the file has, quotes removed: \<open>1e-2\<close>, \<open>null\<close>, \<open>hard_tanh\<close>), a sequence, or a
  mapping from keys to documents in the order of the file.
\<close>

datatype yaml = Scalar string | Seq "yaml list" | Mapping "(string \<times> yaml) list"

text \<open>\<^verbatim>\<open>src/unnamed/part_000\<close>: the grid of the training-stability experiment.\<close>

definition config_part_000 :: yaml where
  "config_part_000 = Mapping [
     (''defaults'', Seq [Mapping [(''data'', Scalar ''two_moons'')]]),
     (''optim'', Mapping [
        (''num_epochs'', Scalar ''8''),
        (''h'', Mapping [
           (''optimizer'', Scalar ''sgd''),
           (''T'', Scalar ''8'')])]),
     (''experiment'', Mapping [
        (''h_dims'', Seq [Scalar ''512'', Scalar ''1024'', Scalar ''2048'', Scalar ''4096'']),
        (''h_lr'', Seq [Scalar ''1.e-3'', Scalar ''3.e-3'', Scalar ''1.e-2'', Scalar ''3.e-2'',
                        Scalar ''1.e-1'', Scalar ''3.e-1'', Scalar ''1.0'']),
        (''w_lr'', Seq [Scalar ''1.e-5'', Scalar ''1.e-4'', Scalar ''1.e-3'', Scalar ''1.e-2'',
                        Scalar ''1.e-1'']),
        (''optimizer_w'', Seq [Scalar ''sgd'', Scalar ''adamw'']),
        (''momentum_w'', Seq [Scalar ''0.0'', Scalar ''0.5'', Scalar ''0.9'', Scalar ''0.95'']),
        (''activation_fn'', Seq [Scalar ''leaky_relu'', Scalar ''hard_tanh'']),
        (''seeds'', Scalar ''3'')]),
     (''model'', Mapping [
        (''definition'', Scalar ''PC''),
        (''init_h'', Scalar ''forward''),
        (''init_h_sd'', Scalar ''0.1''),
        (''constant_layer_size'', Scalar ''False''),
        (''init_w'', Scalar ''default'')]),
     (''run'', Mapping [
        (''n_parallel'', Scalar ''1''),
        (''reload_data'', Scalar ''False''),
        (''jit'', Scalar ''True'')])]"

text \<open>The sampling specifications the hypertune files share.\<close>

definition act_fn_spec :: "string \<Rightarrow> yaml" where
  "act_fn_spec d = Mapping [
     (''sample_type'', Scalar ''categorical''),
     (''sample_space'', Seq [Scalar ''relu'', Scalar ''leaky_relu'', Scalar ''gelu'',
                             Scalar ''tanh'', Scalar ''hard_tanh'']),
     (''default'', Scalar d)]"

definition log_float_spec :: "string \<Rightarrow> string \<Rightarrow> string \<Rightarrow> yaml" where
  "log_float_spec lo hi d = Mapping [
     (''sample_type'', Scalar ''float''),
     (''sample_space'', Seq [Seq [Scalar lo, Scalar hi], Scalar ''null'', Scalar ''true'']),
     (''default'', Scalar d)]"

definition momentum_spec :: "string \<Rightarrow> yaml" where
  "momentum_spec d = Mapping [
     (''sample_type'', Scalar ''float''),
     (''sample_space'', Seq [Seq [Scalar ''0.0'', Scalar ''0.95''], Scalar ''0.05'']),
     (''default'', Scalar d)]"

definition kernel_size_spec :: yaml where
  "kernel_size_spec = Mapping [
     (''sample_type'', Scalar ''categorical''),
     (''sample_space'', Seq [Scalar ''3'', Scalar ''4'', Scalar ''5'', Scalar ''7'']),
     (''default'', Scalar ''4'')]"

text \<open>\<^verbatim>\<open>src/unnamed/part_001\<close>: a hypertune file of the linear autoencoder (mnist).\<close>

definition config_part_001 :: yaml where
  "config_part_001 = Mapping [
     (''direction'', Scalar ''minimize''),
     (''gpus_per_task'', Scalar ''1''),
     (''dataset_name'', Scalar ''mnist''),
     (''seed'', Scalar ''4''),
     (''hp'', Mapping [
        (''layer_dims'', Seq [Scalar ''64'', Scalar ''128'', Scalar ''128'', Scalar ''784'']),
        (''act_fn'', act_fn_spec ''hard_tanh''),
        (''output_act_fn'', Scalar ''null''),
        (''batch_size'', Scalar ''200''),
        (''epochs'', Scalar ''30''),
        (''T'', Scalar ''20''),
        (''use_ipc'', Scalar ''false''),
        (''optim'', Mapping [
           (''x'', Mapping [
              (''lr'', log_float_spec ''1e-2'' ''5e-1'' ''0.019849750737164974''),
              (''momentum'', momentum_spec ''0.15'')]),
           (''w'', Mapping [
              (''name'', Scalar ''adamw''),
              (''lr'', log_float_spec ''3e-5'' ''1e-3'' ''0.0003401383559476183''),
              (''wd'', log_float_spec ''1e-5'' ''1e-2'' ''1.2514685116492747e-05''),
              (''momentum'', Scalar ''0.0'')])])])]"

text \<open>\<^verbatim>\<open>linear/configs/pc_fashionmnist_adamw_hypertune.yaml\<close>\<close>

definition pc_fashionmnist_adamw_hypertune :: yaml where
  "pc_fashionmnist_adamw_hypertune = Mapping [
     (''direction'', Scalar ''minimize''),
     (''gpus_per_task'', Scalar ''1''),
     (''dataset_name'', Scalar ''fashion_mnist''),
     (''seed'', Scalar ''4''),
     (''hp'', Mapping [
        (''layer_dims'', Seq [Scalar ''64'', Scalar ''128'', Scalar ''128'', Scalar ''784'']),
        (''act_fn'', act_fn_spec ''hard_tanh''),
        (''output_act_fn'', Scalar ''null''),
        (''batch_size'', Scalar ''200''),
        (''epochs'', Scalar ''30''),
        (''T'', Scalar ''20''),
        (''use_ipc'', Scalar ''false''),
        (''optim'', Mapping [
           (''x'', Mapping [
              (''lr'', log_float_spec ''1e-2'' ''5e-1'' ''0.011910178174048628''),
              (''momentum'', momentum_spec ''0.45'')]),
           (''w'', Mapping [
              (''name'', Scalar ''adamw''),
              (''lr'', log_float_spec ''3e-5'' ''1e-3'' ''0.0005149979608369072''),
              (''wd'', log_float_spec ''1e-5'' ''1e-2'' ''7.382135878282121e-05''),
              (''momentum'', Scalar ''0.0'')])])])]"

text \<open>\<^verbatim>\<open>deconv/configs/pc_cifar10_sgd_hypertune.yaml\<close>\<close>

definition pc_cifar10_sgd_hypertune :: yaml where
  "pc_cifar10_sgd_hypertune = Mapping [
     (''direction'', Scalar ''minimize''),
     (''gpus_per_task'', Scalar ''1''),
     (''dataset_name'', Scalar ''cifar10''),
     (''seed'', Scalar ''0''),
     (''hp'', Mapping [
        (''num_layers'', Scalar ''3''),
        (''internal_state_dim'', Scalar ''4''),
        (''internal_state_channels'', Scalar ''8''),
        (''kernel_size'', kernel_size_spec),
        (''act_fn'', act_fn_spec ''tanh''),
        (''output_act_fn'', Scalar ''null''),
        (''batch_size'', Scalar ''200''),
        (''epochs'', Scalar ''30''),
        (''T'', Scalar ''20''),
        (''use_ipc'', Scalar ''false''),
        (''optim'', Mapping [
           (''x'', Mapping [
              (''lr'', log_float_spec ''1e-2'' ''5e-1'' ''0.3686335775128242''),
              (''momentum'', momentum_spec ''0.55'')]),
           (''w'', Mapping [
              (''name'', Scalar ''sgd''),
              (''lr'', log_float_spec ''3e-5'' ''1e-2'' ''0.0009158349688429868''),
              (''wd'', log_float_spec ''1e-5'' ''1e-2'' ''0.005516419568456441''),
              (''momentum'', momentum_spec ''0.45'')])])])]"

text \<open>\<^verbatim>\<open>deconv/configs/pc_cifar10_adamw_hypertune.yaml\<close>\<close>

definition pc_cifar10_adamw_hypertune :: yaml where
  "pc_cifar10_adamw_hypertune = Mapping [
     (''direction'', Scalar ''minimize''),
     (''gpus_per_task'', Scalar ''1''),
     (''dataset_name'', Scalar ''cifar10''),
     (''seed'', Scalar ''0''),
     (''hp'', Mapping [
        (''num_layers'', Scalar ''3''),
        (''internal_state_dim'', Scalar ''4''),
        (''internal_state_channels'', Scalar ''8''),
        (''kernel_size'', kernel_size_spec),
        (''act_fn'', act_fn_spec ''hard_tanh''),
        (''output_act_fn'', Scalar ''null''),
        (''batch_size'', Scalar ''200''),
        (''epochs'', Scalar ''30''),
        (''T'', Scalar ''20''),
        (''use_ipc'', Scalar ''false''),
        (''optim'', Mapping [
           (''x'', Mapping [
              (''lr'', log_float_spec ''1e-2'' ''5e-1'' ''0.016660532913375187''),
              (''momentum'', momentum_spec ''0.05'')]),
           (''w'', Mapping [
              (''name'', Scalar ''adamw''),
              (''lr'', log_float_spec ''3e-5'' ''1e-3'' ''0.000897883696520861''),
              (''wd'', log_float_spec ''1e-5'' ''1e-2'' ''0.00992856858997552''),
              (''momentum'', Scalar ''0.0'')])])])]"

definition hypertune_configs :: "yaml list" where
  "hypertune_configs = [config_part_001, pc_fashionmnist_adamw_hypertune,
     pc_cifar10_sgd_hypertune, pc_cifar10_adamw_hypertune]"

definition all_configs :: "yaml list" where
  "all_configs = config_part_000 # hypertune_configs"

subsection \<open>Reading a record\<close>

text \<open>Every mapping of a document, at any depth, outermost first.\<close>

fun mappings :: "yaml \<Rightarrow> (string \<times> yaml) list list" where
  "mappings (Scalar s) = []"
| "mappings (Seq ys) = concat (map mappings ys)"
| "mappings (Mapping kvs) = kvs # concat (map (\<lambda>kv. mappings (snd kv)) kvs)"

text \<open>Every key path of a document: the keys from the root down to a node.\<close>

fun paths :: "yaml \<Rightarrow> string list list" where
  "paths (Scalar s) = []"
| "paths (Seq ys) = concat (map paths ys)"
| "paths (Mapping kvs) =
     concat (map (\<lambda>kv. [fst kv] # map ((#) (fst kv)) (paths (snd kv))) kvs)"

definition has_key :: "(string \<times> yaml) list \<Rightarrow> string \<Rightarrow> bool" where
  "has_key kvs k = (k \<in> set (map fst kvs))"

text \<open>
  The three fields of a sampling specification. A mapping is annotated when it carries
  at least one of them, and complete when it carries all three.
\<close>

definition sampling_fields :: "string list" where
  "sampling_fields = [''sample_type'', ''sample_space'', ''default'']"

definition annotated :: "(string \<times> yaml) list \<Rightarrow> bool" where
  "annotated kvs = list_ex (has_key kvs) sampling_fields"

definition complete_spec :: "(string \<times> yaml) list \<Rightarrow> bool" where
  "complete_spec kvs = list_all (has_key kvs) sampling_fields"

definition annotated_nodes :: "yaml \<Rightarrow> (string \<times> yaml) list list" where
  "annotated_nodes c = filter annotated (mappings c)"

text \<open>
  The hyperparameters the specification lists for a record, and where the files of the
  repository keep each: the key paths below are all the spellings that occur in them.
\<close>

datatype hyperparameter =
  StateLearningRate | WeightLearningRate | Momentum | WeightDecay | LayerDimensions
  | ActivationFunction | OptimizerName | RelaxationSteps | EpochCount | BatchSize

definition hyperparameters :: "hyperparameter list" where
  "hyperparameters = [StateLearningRate, WeightLearningRate, Momentum, WeightDecay,
     LayerDimensions, ActivationFunction, OptimizerName, RelaxationSteps, EpochCount,
     BatchSize]"

fun spellings :: "hyperparameter \<Rightarrow> string list list" where
  "spellings StateLearningRate = [[''hp'', ''optim'', ''x'', ''lr''], [''experiment'', ''h_lr'']]"
| "spellings WeightLearningRate = [[''hp'', ''optim'', ''w'', ''lr''], [''experiment'', ''w_lr'']]"
| "spellings Momentum = [[''hp'', ''optim'', ''x'', ''momentum''],
     [''hp'', ''optim'', ''w'', ''momentum''], [''experiment'', ''momentum_w'']]"
| "spellings WeightDecay = [[''hp'', ''optim'', ''w'', ''wd'']]"
| "spellings LayerDimensions = [[''hp'', ''layer_dims''], [''experiment'', ''h_dims''],
     [''hp'', ''internal_state_dim''], [''hp'', ''internal_state_channels'']]"
| "spellings ActivationFunction = [[''hp'', ''act_fn''], [''experiment'', ''activation_fn'']]"
| "spellings OptimizerName = [[''hp'', ''optim'', ''w'', ''name''],
     [''optim'', ''h'', ''optimizer''], [''experiment'', ''optimizer_w'']]"
| "spellings RelaxationSteps = [[''hp'', ''T''], [''optim'', ''h'', ''T'']]"
| "spellings EpochCount = [[''hp'', ''epochs''], [''optim'', ''num_epochs'']]"
| "spellings BatchSize = [[''hp'', ''batch_size'']]"

definition contains_hp :: "yaml \<Rightarrow> hyperparameter \<Rightarrow> bool" where
  "contains_hp c h = list_ex (\<lambda>p. p \<in> set (paths c)) (spellings h)"

definition is_mapping :: "yaml \<Rightarrow> bool" where
  "is_mapping c = (case c of Mapping kvs \<Rightarrow> True | _ \<Rightarrow> False)"

text \<open>The entry of a key at the top of a record.\<close>

definition top_level :: "yaml \<Rightarrow> string \<Rightarrow> yaml option" where
  "top_level c k = (case c of Mapping kvs \<Rightarrow> map_of kvs k | _ \<Rightarrow> None)"

section \<open>The job submission script\<close>

text \<open>
  \<^verbatim>\<open>src/unnamed/part_002\<close> is a shell script of two commands:
  \<^verbatim>\<open>study=$1\<close> and
  \<^verbatim>\<open>python -m stune --exe bp_hypertune --study bp_${study} --gpus "0,1,2,3,4,5,6,7" --n_trials 32:8 --tuner ssh --config bp_${study}_hypertune.yaml\<close>.
  A word of a command is a row of segments: plain text, double-quoted text, or an
  unquoted parameter expansion.
\<close>

datatype segment = Plain string | Quoted string | Param string

type_synonym word = "segment list"

definition script_command :: "word list" where
  "script_command =
     [[Plain ''python''], [Plain ''-m''], [Plain ''stune''],
      [Plain ''--exe''], [Plain ''bp_hypertune''],
      [Plain ''--study''], [Plain ''bp_'', Param ''study''],
      [Plain ''--gpus''], [Quoted ''0,1,2,3,4,5,6,7''],
      [Plain ''--n_trials''], [Plain ''32:8''],
      [Plain ''--tuner''], [Plain ''ssh''],
      [Plain ''--config''], [Plain ''bp_'', Param ''study'', Plain ''_hypertune.yaml'']]"

text \<open>
  The shell expands a word character by character; each character remembers where it
  came from, since only the result of an unquoted expansion is split into fields and
  only unquoted characters make a pattern.
\<close>

datatype origin = FromText | FromQuotes | FromParam

type_synonym xword = "(char \<times> origin) list"

fun expand :: "(string \<Rightarrow> string) \<Rightarrow> segment \<Rightarrow> xword" where
  "expand env (Plain t) = map (\<lambda>c. (c, FromText)) t"
| "expand env (Quoted t) = map (\<lambda>c. (c, FromQuotes)) t"
| "expand env (Param x) = map (\<lambda>c. (c, FromParam)) (env x)"

text \<open>The default field separators: space, tab and newline.\<close>

definition ifs_whitespace :: "char \<Rightarrow> bool" where
  "ifs_whitespace c = (c = CHR '' '' \<or> c = CHR 0x09 \<or> c = CHR 0x0A)"

definition glob_char :: "char \<Rightarrow> bool" where
  "glob_char c = (c = CHR ''*'' \<or> c = CHR ''?'' \<or> c = CHR ''['')"

text \<open>
  Field splitting: a run of separators that an expansion produced ends the field read
  so far (\<open>cur\<close>); a field with no character is dropped.
\<close>

fun split_fields :: "xword \<Rightarrow> xword \<Rightarrow> xword list" where
  "split_fields cur [] = (if cur = [] then [] else [cur])"
| "split_fields cur ((c, ori) # w) =
     (if ori = FromParam \<and> ifs_whitespace c
      then (if cur = [] then [] else [cur]) @ split_fields [] w
      else split_fields (cur @ [(c, ori)]) w)"

text \<open>
  Pathname expansion: a field with an unquoted \<open>*\<close>, \<open>?\<close> or \<open>[\<close> is a pattern,
  replaced by the file names it matches when there are any. The matches depend on the
  directory the script runs in: \<open>glob\<close> gives them.
\<close>

definition pathname_expansion :: "(string \<Rightarrow> string list) \<Rightarrow> xword \<Rightarrow> string list" where
  "pathname_expansion glob f =
     (let w = map fst f in
      if list_ex (\<lambda>(c, ori). ori \<noteq> FromQuotes \<and> glob_char c) f
      then (case glob w of [] \<Rightarrow> [w] | m # ms \<Rightarrow> m # ms)
      else [w])"

definition expand_word ::
  "(string \<Rightarrow> string) \<Rightarrow> (string \<Rightarrow> string list) \<Rightarrow> word \<Rightarrow> string list" where
  "expand_word env glob w =
     concat (map (pathname_expansion glob) (split_fields [] (concat (map (expand env) w))))"

text \<open>
  The argument vector of the one command the script runs, from the script's positional
  arguments: \<open>study\<close> is the first of them, or empty when there is none.
\<close>

definition script_argv :: "(string \<Rightarrow> string list) \<Rightarrow> string list \<Rightarrow> string list" where
  "script_argv glob args =
     (let study = (case args of [] \<Rightarrow> [] | a # _ \<Rightarrow> a);
          env = (\<lambda>x. if x = ''study'' then study else [])
      in concat (map (expand_word env glob) script_command))"

text \<open>
  The script's exit status is that of its last command: \<open>exec\<close> is the system running
  an argument vector to its exit status.
\<close>

definition run_script ::
  "(string list \<Rightarrow> nat) \<Rightarrow> (string \<Rightarrow> string list) \<Rightarrow> string list \<Rightarrow> nat" where
  "run_script exec glob args = exec (script_argv glob args)"

text \<open>The options of an argument vector: its words that start with two dashes.\<close>

definition options_of :: "string list \<Rightarrow> string list" where
  "options_of argv = filter (\<lambda>w. take 2 w = ''--'') argv"

definition plain_name :: "string \<Rightarrow> bool" where
  "plain_name t = list_all (\<lambda>c. \<not> ifs_whitespace c \<and> \<not> glob_char c) t"

section \<open>The analysis notebook\<close>

subsection \<open>Values, rows and frames\<close>

text \<open>
  A float64 cell is a finite number, held as the rational it denotes, or NaN (a missing
  value). Infinities are left out: the columns read here are learning rates and
  accuracies. Comparison is exact and false on NaN; addition rounds, and the notebook's
  one addition is taken from the parameter \<open>add64\<close>.
\<close>

datatype float64 = Finite rat | NaN

fun flt :: "float64 \<Rightarrow> float64 \<Rightarrow> bool" where
  "flt (Finite a) (Finite b) = (a < b)"
| "flt _ _ = False"

text \<open>The doubles that Python reads the literals \<open>0.3\<close> and \<open>0.1\<close> as.\<close>

definition lit_0_3 :: float64 where
  "lit_0_3 = Finite (5404319552844595 / 18014398509481984)"

definition lit_0_1 :: float64 where
  "lit_0_1 = Finite (3602879701896397 / 36028797018963968)"

text \<open>
  A row of the results frame of \<open>plot_lineplots\<close>: the columns \<open>condition\<close>,
  \<open>config.h_lr\<close>, \<open>experiment.data.dataset\<close>, \<open>config.hidden_dims\<close> and
  \<open>results.accuracy\<close>. The frame's other columns are the record's extension.
\<close>

record row =
  condition :: string
  config_h_lr :: float64
  experiment_data_dataset :: string
  config_hidden_dims :: int
  results_accuracy :: float64

text \<open>A row of the frame of \<open>mark_max\<close>: the columns \<open>h_dim\<close>, \<open>h_lr\<close>, \<open>accuracy\<close>.\<close>

record mrow =
  h_dim :: int
  h_lr :: float64
  accuracy :: float64

text \<open>A DataFrame: its rows in order, each with its index label.\<close>

type_synonym 'r frame = "(nat \<times> 'r) list"

text \<open>
  Frames are objects: a variable holds a reference, and two variables may hold the same
  one. The store maps the references handed out so far (those below \<open>lim\<close>) to frames.
\<close>

type_synonym addr = nat

record 'r store =
  frames :: "addr \<Rightarrow> 'r frame"
  lim :: addr

definition new_frame :: "'r frame \<Rightarrow> 'r store \<Rightarrow> addr \<times> 'r store" where
  "new_frame f s = (lim s, s\<lparr>frames := (frames s)(lim s := f), lim := Suc (lim s)\<rparr>)"

text \<open>\<open>df.copy()\<close>: a new frame with the same rows.\<close>

definition df_copy :: "addr \<Rightarrow> 'r store \<Rightarrow> addr \<times> 'r store" where
  "df_copy a s = new_frame (frames s a) s"

text \<open>\<open>df[mask]\<close> and \<open>df.loc[mask]\<close> for a mask computed row by row: a new frame.\<close>

definition df_select :: "('r \<Rightarrow> bool) \<Rightarrow> addr \<Rightarrow> 'r store \<Rightarrow> addr \<times> 'r store" where
  "df_select p a s = new_frame (filter (\<lambda>(l, r). p r) (frames s a)) s"

text \<open>\<open>df[col] = ...\<close>: the frame itself is changed, for every variable that refers to it.\<close>

definition df_set_column :: "('r \<Rightarrow> 'r) \<Rightarrow> addr \<Rightarrow> 'r store \<Rightarrow> 'r store" where
  "df_set_column upd a s = s\<lparr>frames := (frames s)(a := map (\<lambda>(l, r). (l, upd r)) (frames s a))\<rparr>"

text \<open>\<open>pd.concat([a, b])\<close>: a new frame, the rows of \<open>a\<close> and then those of \<open>b\<close>, labels kept.\<close>

definition pd_concat :: "addr \<Rightarrow> addr \<Rightarrow> 'r store \<Rightarrow> addr \<times> 'r store" where
  "pd_concat a b s = new_frame (frames s a @ frames s b) s"

text \<open>\<open>Series.str.contains(pat)\<close> and Python's \<open>pat in s\<close>, for a pattern of plain letters.\<close>

definition str_contains :: "string \<Rightarrow> string \<Rightarrow> bool" where
  "str_contains pat t = sublist pat t"

datatype error = KeyError | IndexError | ValueError | OSError string

subsection \<open>errorbar\<close>

text \<open>
  \<^verbatim>\<open>def errorbar(x: np.ndarray): return (x.min(), x.max())\<close>.
  The minimum and the maximum of an array are NaN when it holds a NaN, and an array with
  no element has neither.
\<close>

definition fmin :: "float64 \<Rightarrow> float64 \<Rightarrow> float64" where
  "fmin a b = (case (a, b) of (Finite p, Finite q) \<Rightarrow> Finite (min p q) | _ \<Rightarrow> NaN)"

definition fmax :: "float64 \<Rightarrow> float64 \<Rightarrow> float64" where
  "fmax a b = (case (a, b) of (Finite p, Finite q) \<Rightarrow> Finite (max p q) | _ \<Rightarrow> NaN)"

fun np_min :: "float64 list \<Rightarrow> error + float64" where
  "np_min [] = Inl ValueError"
| "np_min (x # xs) = Inr (fold fmin xs x)"

fun np_max :: "float64 list \<Rightarrow> error + float64" where
  "np_max [] = Inl ValueError"
| "np_max (x # xs) = Inr (fold fmax xs x)"

definition errorbar :: "float64 list \<Rightarrow> error + float64 \<times> float64" where
  "errorbar x =
     (case np_min x of Inl e \<Rightarrow> Inl e
      | Inr lo \<Rightarrow> (case np_max x of Inl e \<Rightarrow> Inl e | Inr hi \<Rightarrow> Inr (lo, hi)))"

subsection \<open>mark_max\<close>

text \<open>
  \<^verbatim>\<open>max_acc = data.groupby("h_dim").apply(lambda x: x.loc[x["accuracy"].idxmax()])\<close>
  \<^verbatim>\<open>              .reset_index(drop=True).sort_values("h_dim")\<close>
  \<^verbatim>\<open>num_h_dims = len(max_acc["h_dim"].unique())\<close>
  \<^verbatim>\<open>palette = sns.color_palette("viridis", n_colors=num_h_dims)\<close>
  \<^verbatim>\<open>for i, row in max_acc.iterrows():\<close>
  \<^verbatim>\<open>    plt.scatter(row["h_lr"], row["accuracy"], s=500, alpha=0.2, color=palette[i])\<close>

  This is pandas 2, which the notebook was written for: the group handed to the function
  keeps its \<open>h_dim\<close> column. \<open>idxmax\<close> is the label of the first largest value, NaN
  skipped; on a column of NaN only it has no label to give (it answers NaN, which \<open>.loc\<close>
  then fails to find).
\<close>

fun idxmax_acc :: "(nat \<times> rat) option \<Rightarrow> (nat \<times> float64) list \<Rightarrow> (nat \<times> rat) option" where
  "idxmax_acc best [] = best"
| "idxmax_acc best ((l, NaN) # xs) = idxmax_acc best xs"
| "idxmax_acc best ((l, Finite v) # xs) =
     idxmax_acc (case best of None \<Rightarrow> Some (l, v)
                 | Some (l', v') \<Rightarrow> if v' < v then Some (l, v) else Some (l', v')) xs"

definition idxmax :: "(nat \<times> float64) list \<Rightarrow> nat option" where
  "idxmax col = map_option fst (idxmax_acc None col)"

text \<open>The rows of \<open>x\<close> with the label \<open>l\<close>.\<close>

definition df_loc :: "'r frame \<Rightarrow> nat \<Rightarrow> 'r frame" where
  "df_loc x l = filter (\<lambda>(l', r). l' = l) x"

text \<open>
  What \<open>x.loc[l]\<close> gives: the row with the label \<open>l\<close> (a Series) when one row of \<open>x\<close>
  carries it, and the frame of the rows that carry it when several do.
\<close>

datatype 'r selection = Series 'r | DataFrame "'r frame"

text \<open>The function applied to each group.\<close>

definition max_row :: "'m mrow_scheme frame \<Rightarrow> error + 'm mrow_scheme selection" where
  "max_row x =
     (case idxmax (map (\<lambda>(l, r). (l, accuracy r)) x) of
        None \<Rightarrow> Inl KeyError
      | Some l \<Rightarrow> (case df_loc x l of [(l', r)] \<Rightarrow> Inr (Series r) | rs \<Rightarrow> Inr (DataFrame rs)))"

text \<open>\<open>groupby("h_dim")\<close>: one group for each value of the column, in ascending order.\<close>

definition group_keys :: "'m mrow_scheme frame \<Rightarrow> int list" where
  "group_keys data = sort (remdups (map (\<lambda>(l, r). h_dim r) data))"

definition group_of :: "int \<Rightarrow> 'm mrow_scheme frame \<Rightarrow> 'm mrow_scheme frame" where
  "group_of k data = filter (\<lambda>(l, r). h_dim r = k) data"

text \<open>\<open>apply\<close>: the function on each group in turn; the first error ends it.\<close>

fun apply_groups :: "('a \<Rightarrow> error + 'b) \<Rightarrow> 'a list \<Rightarrow> error + 'b list" where
  "apply_groups f [] = Inr []"
| "apply_groups f (g # gs) =
     (case f g of Inl e \<Rightarrow> Inl e
      | Inr r \<Rightarrow> (case apply_groups f gs of Inl e \<Rightarrow> Inl e | Inr rs \<Rightarrow> Inr (r # rs)))"

text \<open>
  A point drawn by \<open>plt.scatter\<close> on the current axes: its coordinates and the index of
  its colour in the palette (the size and the opacity are the same for all).
\<close>

record scatter_point =
  sx :: float64
  sy :: float64
  colour :: nat

type_synonym canvas = "scatter_point list"

text \<open>
  The loop over \<open>max_acc.iterrows()\<close>, on the index label, \<open>row["h_lr"]\<close> and
  \<open>row["accuracy"]\<close> of each row: \<open>palette[i]\<close> fails when \<open>i\<close> is not below the
  palette's length, after the points of the rows before.
\<close>

fun scatter_rows ::
  "nat \<Rightarrow> (nat \<times> float64 \<times> float64) list \<Rightarrow> canvas \<Rightarrow> (error + unit) \<times> canvas" where
  "scatter_rows n [] cv = (Inr (), cv)"
| "scatter_rows n ((i, x, y) # rest) cv =
     (if i < n
      then scatter_rows n rest (cv @ [\<lparr>sx = x, sy = y, colour = i\<rparr>])
      else (Inl IndexError, cv))"

text \<open>
  What \<open>apply\<close> makes of the results of the groups. Of rows alone it makes a frame with
  one row for each group, and of frames alone (\<open>pd.concat\<close>) a frame with all their
  rows, in the order of the groups; \<open>reset_index(drop=True)\<close> then labels the rows 0, 1,
  2, ... Of frames there are more rows than groups, so that the loop runs out of colours.
\<close>

fun rows_of :: "'r selection \<Rightarrow> 'r list" where
  "rows_of (Series r) = [r]"
| "rows_of (DataFrame f) = map snd f"

fun is_Series :: "'r selection \<Rightarrow> bool" where
  "is_Series (Series r) = True"
| "is_Series (DataFrame f) = False"

text \<open>
  The function. When the label of the largest accuracy is repeated in some groups and
  not in others, \<open>pd.concat\<close> gets rows and frames; it lays each row out as a column of
  its own, and the frame it makes has further columns and one more row for each column
  of \<open>data\<close>, without \<open>h_dim\<close>, \<open>h_lr\<close> and \<open>accuracy\<close>. What the loop visits then
  depends on the number of columns of \<open>data\<close>, which the rows here leave open: it is
  taken from the parameter \<open>mixed\<close>, the length of the palette and the index label,
  \<open>row["h_lr"]\<close> and \<open>row["accuracy"]\<close> of the rows in the order of \<open>iterrows\<close>.
  \<open>sort_values\<close> keeps the rows of one \<open>h_dim\<close> in their order, as it does on short
  columns (numpy's sort does not promise it on long ones); with one row for each group
  no two rows have the same \<open>h_dim\<close>.
\<close>

definition mark_max ::
  "('m mrow_scheme selection list \<Rightarrow> nat \<times> (nat \<times> float64 \<times> float64) list)
     \<Rightarrow> 'm mrow_scheme frame \<Rightarrow> 'c \<Rightarrow> canvas \<Rightarrow> (error + unit) \<times> canvas" where
  "mark_max mixed data color cv =
     (case apply_groups max_row (map (\<lambda>k. group_of k data) (group_keys data)) of
        Inl e \<Rightarrow> (Inl e, cv)
      | Inr found \<Rightarrow>
          (if list_all is_Series found \<or> list_all (\<lambda>v. \<not> is_Series v) found
           then (let max_acc = sort_key (\<lambda>(i, r). h_dim r)
                                 (enumerate 0 (concat (map rows_of found)));
                     num_h_dims = length (remdups (map (\<lambda>(i, r). h_dim r) max_acc))
                 in scatter_rows num_h_dims
                      (map (\<lambda>(i, r). (i, h_lr r, accuracy r)) max_acc) cv)
           else (let (num_h_dims, visited) = mixed found
                 in scatter_rows num_h_dims visited cv)))"

subsection \<open>plot_lineplots\<close>

text \<open>
  One set of axes of the figure: the rows handed to \<open>sns.lineplot\<close>, of which it reads
  \<open>x="config.h_lr"\<close>, \<open>y="results.accuracy"\<close> and \<open>hue="config.hidden_dims"\<close>, and what
  the notebook sets on the axes afterwards.
\<close>

record panel =
  p_data :: "(float64 \<times> float64 \<times> int) list"
  p_marker :: bool
  p_xlabel :: string
  p_xticks_removed :: bool
  p_xscale_log :: bool
  p_ylabel :: string
  p_yticklabels_removed :: bool
  p_legend_visible :: bool
  p_title :: string

record figure =
  n_colors :: nat
  axs :: "panel list"

definition lineplot_data :: "'m row_scheme frame \<Rightarrow> (float64 \<times> float64 \<times> int) list" where
  "lineplot_data d = map (\<lambda>(l, r). (config_h_lr r, results_accuracy r, config_hidden_dims r)) d"

text \<open>
  \<open>sns.lineplot\<close> can fail, and whether it does depends on the index labels of the rows
  too. What it is handed: the length of the palette, whether a marker is asked for, and
  the rows with their labels and the three columns it reads. The parameter \<open>lineplot\<close>
  of the functions below is its answer: nothing when the curves are drawn, or the error
  it raises.
\<close>

type_synonym lineplot_args = "nat \<times> bool \<times> (nat \<times> float64 \<times> float64 \<times> int) list"

definition lineplot_input :: "'m row_scheme frame \<Rightarrow> (nat \<times> float64 \<times> float64 \<times> int) list" where
  "lineplot_input d =
     map (\<lambda>(l, r). (l, config_h_lr r, results_accuracy r, config_hidden_dims r)) d"

text \<open>
  The first statements of \<open>plot_lineplots\<close>:
  \<^verbatim>\<open>results = results.copy()\<close>
  \<^verbatim>\<open>mask_bp = results["condition"].str.contains("BP")\<close>
  \<^verbatim>\<open>mask_pc = results["condition"].str.contains("PC") & (results["config.h_lr"] < 0.3)\<close>
  \<^verbatim>\<open>results = results[mask_bp | mask_pc]\<close>
\<close>

definition mask_bp :: "'m row_scheme \<Rightarrow> bool" where
  "mask_bp r = str_contains ''BP'' (condition r)"

definition mask_pc :: "'m row_scheme \<Rightarrow> bool" where
  "mask_pc r = (str_contains ''PC'' (condition r) \<and> flt (config_h_lr r) lit_0_3)"

definition keep_rows :: "addr \<Rightarrow> 'm row_scheme store \<Rightarrow> addr \<times> 'm row_scheme store" where
  "keep_rows results s =
     (let (results, s1) = df_copy results s
      in df_select (\<lambda>r. mask_bp r \<or> mask_pc r) results s1)"

definition titles :: "string list" where
  "titles = [''PC - SGD'', ''PC - Adam'', ''BP'']"

definition conditions :: "string list" where
  "conditions = [''PC-sgd-0.9'', ''PC-adamw-0.9'', ''BP-sgd-0.9'']"

text \<open>The label of the x axis of the PC panels, \<^verbatim>\<open>r"$\gamma$ (State Learning Rate)"\<close>.\<close>

definition gamma_label :: string where
  "gamma_label = ''$'' @ [CHR 0x5C] @ ''gamma$ (State Learning Rate)''"

text \<open>\<^verbatim>\<open>results_condition_2["config.h_lr"] + 0.1\<close>, row by row.\<close>

definition shift_h_lr :: "(float64 \<Rightarrow> float64 \<Rightarrow> float64) \<Rightarrow> 'm row_scheme \<Rightarrow> 'm row_scheme" where
  "shift_h_lr add64 r = r\<lparr>config_h_lr := add64 (config_h_lr r) lit_0_1\<rparr>"

text \<open>
  The body of the loop over the conditions, for the \<open>i\<close>-th of them and a palette of
  \<open>n\<close> colours. An error of \<open>sns.lineplot\<close> ends it.
\<close>

definition plot_condition ::
  "(float64 \<Rightarrow> float64 \<Rightarrow> float64) \<Rightarrow> (lineplot_args \<Rightarrow> error option) \<Rightarrow> addr \<Rightarrow> nat \<Rightarrow> nat
     \<Rightarrow> string \<Rightarrow> 'm row_scheme store \<Rightarrow> (error + panel) \<times> 'm row_scheme store" where
  "plot_condition add64 lineplot results n i cond s =
     (let (results_condition, s1) = df_select (\<lambda>r. condition r = cond) results s;
          (results_condition, marker, s4) =
            (if str_contains ''BP'' cond
             then (let (results_condition_2, s2) = df_copy results_condition s1;
                       s3 = df_set_column (shift_h_lr add64) results_condition_2 s2;
                       (results_condition, s4) =
                          pd_concat results_condition results_condition_2 s3
                   in (results_condition, False, s4))
             else (results_condition, True, s1))
      in (case lineplot (n, marker, lineplot_input (frames s4 results_condition)) of
            Some e \<Rightarrow> (Inl e, s4)
          | None \<Rightarrow>
              (Inr \<lparr>p_data = lineplot_data (frames s4 results_condition),
                    p_marker = marker,
                    p_xlabel = (if str_contains ''BP'' cond then [] else gamma_label),
                    p_xticks_removed = str_contains ''BP'' cond,
                    p_xscale_log = (\<not> str_contains ''BP'' cond),
                    p_ylabel = (if i = 0 then ''Accuracy'' else []),
                    p_yticklabels_removed = (i \<noteq> 0),
                    p_legend_visible = (i = 0),
                    p_title = titles ! i\<rparr>, s4)))"

fun plot_conditions ::
  "(float64 \<Rightarrow> float64 \<Rightarrow> float64) \<Rightarrow> (lineplot_args \<Rightarrow> error option) \<Rightarrow> addr \<Rightarrow> nat
     \<Rightarrow> (nat \<times> string) list \<Rightarrow> 'm row_scheme store
     \<Rightarrow> (error + panel list) \<times> 'm row_scheme store" where
  "plot_conditions add64 lineplot results n [] s = (Inr [], s)"
| "plot_conditions add64 lineplot results n ((i, cond) # rest) s =
     (case plot_condition add64 lineplot results n i cond s of
        (Inl e, s1) \<Rightarrow> (Inl e, s1)
      | (Inr p, s1) \<Rightarrow>
          (case plot_conditions add64 lineplot results n rest s1 of
             (Inl e, s2) \<Rightarrow> (Inl e, s2)
           | (Inr ps, s2) \<Rightarrow> (Inr (p # ps), s2)))"

text \<open>\<open>os.path.join\<close> of two components, as \<open>posixpath\<close> has it.\<close>

definition os_path_join :: "string \<Rightarrow> string \<Rightarrow> string" where
  "os_path_join a b =
     (if take 1 b = ''/'' then b
      else if a = [] \<or> last a = CHR ''/'' then a @ b
      else a @ ''/'' @ b)"

definition plot_file_name :: "string \<Rightarrow> string \<Rightarrow> string" where
  "plot_file_name dataset suffix' =
     ''lr-scaling-lineplot-'' @ dataset @ (if length suffix' > 0 then ''-'' @ suffix' else [])
       @ ''.pdf''"

text \<open>
  The function. \<open>results\<close> is the caller's reference to its frame; \<open>savefig\<close> is the
  answer of \<open>plt.savefig\<close> for a path and a figure: nothing when the file is written,
  or the error it raises. The value returned here is the error of the first library
  call that fails, \<open>sns.lineplot\<close> for one of the conditions or \<open>plt.savefig\<close> after
  them, or the file written. The palette has one colour for each hidden-layer width left
  after the selections (\<open>h_lrs\<close>, which the source computes beside \<open>h_dims\<close>, is never
  used).
\<close>

definition plot_lineplots ::
  "(float64 \<Rightarrow> float64 \<Rightarrow> float64) \<Rightarrow> (lineplot_args \<Rightarrow> error option)
     \<Rightarrow> (string \<Rightarrow> figure \<Rightarrow> error option)
     \<Rightarrow> addr \<Rightarrow> string \<Rightarrow> string \<Rightarrow> string \<Rightarrow> 'm row_scheme store
     \<Rightarrow> (error + string \<times> figure) \<times> 'm row_scheme store" where
  "plot_lineplots add64 lineplot savefig results experiment_folder dataset suffix' s =
     (let (results, s2) = keep_rows results s;
          (results, s3) = df_select (\<lambda>r. experiment_data_dataset r = dataset) results s2;
          h_dims = sort (remdups (map (\<lambda>(l, r). config_hidden_dims r) (frames s3 results)))
      in (case plot_conditions add64 lineplot results (length h_dims)
                 (enumerate 0 conditions) s3 of
            (Inl e, s4) \<Rightarrow> (Inl e, s4)
          | (Inr panels, s4) \<Rightarrow>
              (let fig = \<lparr>n_colors = length h_dims, axs = panels\<rparr>;
                   path = os_path_join experiment_folder (plot_file_name dataset suffix')
               in (case savefig path fig of
                     Some e \<Rightarrow> (Inl e, s4)
                   | None \<Rightarrow> (Inr (path, fig), s4)))))"

subsection \<open>What a call draws, as a function of the caller's frame\<close>

text \<open>
  The rows left after the two selections at the start of \<open>plot_lineplots\<close>, the rows
  handed to \<open>sns.lineplot\<close> for a condition, the axes and the figure, written without
  the store. The theorems below relate the function to them.
\<close>

definition selected_rows :: "string \<Rightarrow> 'm row_scheme frame \<Rightarrow> 'm row_scheme frame" where
  "selected_rows dataset f =
     filter (\<lambda>(l, r). experiment_data_dataset r = dataset)
       (filter (\<lambda>(l, r). mask_bp r \<or> mask_pc r) f)"

definition panel_rows ::
  "(float64 \<Rightarrow> float64 \<Rightarrow> float64) \<Rightarrow> string \<Rightarrow> 'm row_scheme frame \<Rightarrow> 'm row_scheme frame" where
  "panel_rows add64 cond f =
     (let rc = filter (\<lambda>(l, r). condition r = cond) f
      in if str_contains ''BP'' cond then rc @ map (\<lambda>(l, r). (l, shift_h_lr add64 r)) rc else rc)"

definition panel_of ::
  "(float64 \<Rightarrow> float64 \<Rightarrow> float64) \<Rightarrow> nat \<Rightarrow> string \<Rightarrow> 'm row_scheme frame \<Rightarrow> panel" where
  "panel_of add64 i cond f =
     \<lparr>p_data = lineplot_data (panel_rows add64 cond f),
      p_marker = (\<not> str_contains ''BP'' cond),
      p_xlabel = (if str_contains ''BP'' cond then [] else gamma_label),
      p_xticks_removed = str_contains ''BP'' cond,
      p_xscale_log = (\<not> str_contains ''BP'' cond),
      p_ylabel = (if i = 0 then ''Accuracy'' else []),
      p_yticklabels_removed = (i \<noteq> 0),
      p_legend_visible = (i = 0),
      p_title = titles ! i\<rparr>"

definition figure_of ::
  "(float64 \<Rightarrow> float64 \<Rightarrow> float64) \<Rightarrow> string \<Rightarrow> 'm row_scheme frame \<Rightarrow> figure" where
  "figure_of add64 dataset f =
     \<lparr>n_colors = length (remdups (map (\<lambda>(l, r). config_hidden_dims r) (selected_rows dataset f))),
      axs = map (\<lambda>(i, cond). panel_of add64 i cond (selected_rows dataset f))
              (enumerate 0 conditions)\<rparr>"

text \<open>
  The three calls of \<open>sns.lineplot\<close>, should none fail before, and the first error among
  the answers to a list of calls.
\<close>

definition lineplot_calls ::
  "(float64 \<Rightarrow> float64 \<Rightarrow> float64) \<Rightarrow> string \<Rightarrow> 'm row_scheme frame \<Rightarrow> lineplot_args list" where
  "lineplot_calls add64 dataset f =
     map (\<lambda>cond. (length (remdups (map (\<lambda>(l, r). config_hidden_dims r) (selected_rows dataset f))),
                  \<not> str_contains ''BP'' cond,
                  lineplot_input (panel_rows add64 cond (selected_rows dataset f))))
       conditions"

fun first_error :: "('a \<Rightarrow> error option) \<Rightarrow> 'a list \<Rightarrow> error option" where
  "first_error f [] = None"
| "first_error f (c # cs) = (case f c of Some e \<Rightarrow> Some e | None \<Rightarrow> first_error f cs)"

text \<open>A store extends another when it keeps every frame the other has.\<close>

definition extends :: "'r store \<Rightarrow> 'r store \<Rightarrow> bool" where
  "extends s s' = (lim s \<le> lim s' \<and> (\<forall>b<lim s. frames s' b = frames s b))"

text \<open>
  What \<open>mark_max\<close> is to draw for the group \<open>k\<close>: the learning rate and the accuracy of
  a row of the group whose accuracy is a number that no row of the group exceeds.
\<close>

definition group_max :: "'m mrow_scheme frame \<Rightarrow> int \<Rightarrow> scatter_point \<Rightarrow> bool" where
  "group_max data k p =
     (\<exists>(l, r)\<in>set data. h_dim r = k \<and> sx p = h_lr r \<and> sy p = accuracy r \<and> accuracy r \<noteq> NaN
        \<and> (\<forall>(l', r')\<in>set data. h_dim r' = k \<longrightarrow> \<not> flt (accuracy r) (accuracy r')))"

text \<open>Every group of the frame has a row whose accuracy is a number.\<close>

definition every_group_scored :: "'m mrow_scheme frame \<Rightarrow> bool" where
  "every_group_scored data =
     list_all (\<lambda>(l, r). list_ex (\<lambda>(l', r'). h_dim r' = h_dim r \<and> accuracy r' \<noteq> NaN) data) data"

subsection \<open>Example frames\<close>

text \<open>Addition without rounding, for the examples.\<close>

definition add_exact :: "float64 \<Rightarrow> float64 \<Rightarrow> float64" where
  "add_exact a b = (case (a, b) of (Finite p, Finite q) \<Rightarrow> Finite (p + q) | _ \<Rightarrow> NaN)"

definition example_scores :: "mrow frame" where
  "example_scores =
     [(0, \<lparr>h_dim = 512, h_lr = Finite (1 / 100), accuracy = Finite (1 / 2)\<rparr>),
      (1, \<lparr>h_dim = 512, h_lr = Finite (1 / 10), accuracy = Finite (3 / 4)\<rparr>),
      (2, \<lparr>h_dim = 256, h_lr = Finite (1 / 10), accuracy = NaN\<rparr>),
      (3, \<lparr>h_dim = 256, h_lr = Finite (1 / 5), accuracy = Finite (1 / 4)\<rparr>),
      (4, \<lparr>h_dim = 512, h_lr = Finite (1 / 5), accuracy = Finite (3 / 4)\<rparr>)]"

definition example_results :: "row frame" where
  "example_results =
     [(0, \<lparr>condition = ''PC-sgd-0.9'', config_h_lr = Finite (1 / 100),
           experiment_data_dataset = ''two_moons'', config_hidden_dims = 512,
           results_accuracy = Finite (1 / 2)\<rparr>),
      (1, \<lparr>condition = ''PC-sgd-0.9'', config_h_lr = Finite 1,
           experiment_data_dataset = ''two_moons'', config_hidden_dims = 512,
           results_accuracy = Finite (1 / 4)\<rparr>),
      (2, \<lparr>condition = ''BP-sgd-0.9'', config_h_lr = Finite 1,
           experiment_data_dataset = ''two_moons'', config_hidden_dims = 1024,
           results_accuracy = Finite (3 / 4)\<rparr>),
      (3, \<lparr>condition = ''PC-adamw-0.9'', config_h_lr = Finite (1 / 10),
           experiment_data_dataset = ''fashion_mnist'', config_hidden_dims = 512,
           results_accuracy = Finite (1 / 2)\<rparr>)]"

text \<open>A store with one frame, at the reference 0.\<close>

definition store_of :: "'r frame \<Rightarrow> 'r store" where
  "store_of f = \<lparr>frames = (\<lambda>a. if a = 0 then f else []), lim = 1\<rparr>"

text \<open>
  \<open>sns.lineplot\<close> of seaborn 0.12 and 0.13 on pandas 2, as far as its failures go. Of
  the column \<open>y\<close>, and then of \<open>x\<close>, it keeps the values that are numbers, with their
  labels, and puts them back into its frame as a column. When a value was left out, so
  that the labels are no longer those of the frame, pandas aligns the column on the
  labels, and raises \<open>ValueError\<close> (cannot reindex on an axis with duplicate labels)
  when a label that stayed is repeated.
\<close>

definition realign_fails :: "(nat \<times> float64) list \<Rightarrow> bool" where
  "realign_fails col =
     (let kept = filter (\<lambda>(l, v). v \<noteq> NaN) col
      in length kept \<noteq> length col \<and> \<not> distinct (map fst kept))"

definition sns_lineplot :: "lineplot_args \<Rightarrow> error option" where
  "sns_lineplot args =
     (case args of (n, marker, d) \<Rightarrow>
        if realign_fails (map (\<lambda>(l, x, y, h). (l, y)) d)
             \<or> realign_fails (map (\<lambda>(l, x, y, h). (l, x)) d)
        then Some ValueError else None)"


text \<open>
  For \<open>mark_max\<close> on frames in which no label is repeated, where \<open>mixed\<close> is not
  consulted: an empty palette and no row.
\<close>

definition no_mix :: "'r selection list \<Rightarrow> nat \<times> (nat \<times> float64 \<times> float64) list" where
  "no_mix found = (0, [])"

text \<open>A file system that takes every file, and one without the directory.\<close>

definition savefig_ok :: "string \<Rightarrow> figure \<Rightarrow> error option" where
  "savefig_ok path fig = None"


text \<open>
  Results with two more columns, the weight learning rate and the activation function
  of a run, and two frames that differ in these columns only.
\<close>

record sweep_row = row +
  config_w_lr :: float64
  config_activation_fn :: string

definition sweep_a :: "sweep_row frame" where
  "sweep_a =
     [(0, \<lparr>condition = ''PC-sgd-0.9'', config_h_lr = Finite (1 / 100),
           experiment_data_dataset = ''two_moons'', config_hidden_dims = 512,
           results_accuracy = Finite (1 / 2),
           config_w_lr = Finite (1 / 1000), config_activation_fn = ''leaky_relu''\<rparr>),
      (1, \<lparr>condition = ''PC-adamw-0.9'', config_h_lr = Finite (1 / 10),
           experiment_data_dataset = ''two_moons'', config_hidden_dims = 1024,
           results_accuracy = Finite (3 / 4),
           config_w_lr = Finite (1 / 1000), config_activation_fn = ''leaky_relu''\<rparr>),
      (2, \<lparr>condition = ''BP-sgd-0.9'', config_h_lr = Finite 1,
           experiment_data_dataset = ''two_moons'', config_hidden_dims = 512,
           results_accuracy = Finite (1 / 4),
           config_w_lr = Finite (1 / 1000), config_activation_fn = ''leaky_relu''\<rparr>)]"

definition sweep_b :: "sweep_row frame" where
  "sweep_b =
     [(0, \<lparr>condition = ''PC-sgd-0.9'', config_h_lr = Finite (1 / 100),
           experiment_data_dataset = ''two_moons'', config_hidden_dims = 512,
           results_accuracy = Finite (1 / 2),
           config_w_lr = Finite (1 / 100), config_activation_fn = ''hard_tanh''\<rparr>),
      (1, \<lparr>condition = ''PC-adamw-0.9'', config_h_lr = Finite (1 / 10),
           experiment_data_dataset = ''two_moons'', config_hidden_dims = 1024,
           results_accuracy = Finite (3 / 4),
           config_w_lr = Finite (1 / 10), config_activation_fn = ''hard_tanh''\<rparr>),
      (2, \<lparr>condition = ''BP-sgd-0.9'', config_h_lr = Finite 1,
           experiment_data_dataset = ''two_moons'', config_hidden_dims = 512,
           results_accuracy = Finite (1 / 4),
           config_w_lr = Finite (1 / 100), config_activation_fn = ''hard_tanh''\<rparr>)]"

section \<open>Properties of the configuration records\<close>

lemmas config_defs = config_part_000_def config_part_001_def
  pc_fashionmnist_adamw_hypertune_def pc_cifar10_sgd_hypertune_def
  pc_cifar10_adamw_hypertune_def act_fn_spec_def log_float_spec_def momentum_spec_def
  kernel_size_spec_def


text \<open>
  Claim C2. In every configuration record of the repository, a mapping that carries one
  of the fields \<open>sample_type\<close>, \<open>sample_space\<close>, \<open>default\<close> (a hyperparameter
  annotated with a sampling specification) carries all three.
\<close>

theorem sampling_spec_complete:
  assumes "c \<in> set all_configs" and "m \<in> set (mappings c)" and "annotated m"
  shows "complete_spec m"
proof -
  have "list_all (\<lambda>c. list_all complete_spec (annotated_nodes c)) all_configs"
    by code_simp
  with assms(1) have "list_all complete_spec (annotated_nodes c)"
    by (simp add: list_all_iff)
  with assms(2,3) show ?thesis
    by (simp add: list_all_iff annotated_nodes_def)
qed

text \<open>
  The state learning rate of \<^verbatim>\<open>src/unnamed/part_001\<close> is such a mapping; the five
  files hold 0, 5, 5, 7 and 6 annotated hyperparameters.
\<close>

theorem sampling_spec_complete_witness:
  "config_part_001 \<in> set all_configs
   \<and> [(''sample_type'', Scalar ''float''),
       (''sample_space'', Seq [Seq [Scalar ''1e-2'', Scalar ''5e-1''], Scalar ''null'',
                               Scalar ''true'']),
       (''default'', Scalar ''0.019849750737164974'')] \<in> set (mappings config_part_001)
   \<and> annotated [(''sample_type'', Scalar ''float''),
       (''sample_space'', Seq [Seq [Scalar ''1e-2'', Scalar ''5e-1''], Scalar ''null'',
                               Scalar ''true'']),
       (''default'', Scalar ''0.019849750737164974'')]
   \<and> complete_spec [(''sample_type'', Scalar ''float''),
       (''sample_space'', Seq [Seq [Scalar ''1e-2'', Scalar ''5e-1''], Scalar ''null'',
                               Scalar ''true'']),
       (''default'', Scalar ''0.019849750737164974'')]
   \<and> map (\<lambda>c. length (annotated_nodes c)) all_configs = [0, 5, 5, 7, 6]"
proof -
  let ?m = "[(''sample_type'', Scalar ''float''),
       (''sample_space'', Seq [Seq [Scalar ''1e-2'', Scalar ''5e-1''], Scalar ''null'',
                               Scalar ''true'']),
       (''default'', Scalar ''0.019849750737164974'')]"
  have c: "config_part_001 \<in> set all_configs"
    by (simp add: all_configs_def hypertune_configs_def)
  have m: "?m \<in> set (mappings config_part_001)"
    by (simp add: config_defs)
  have a: "annotated ?m"
    by (simp add: annotated_def sampling_fields_def has_key_def)
  have n: "map (\<lambda>c. length (annotated_nodes c)) all_configs = [0, 5, 5, 7, 6]"
    by code_simp
  from c m a n sampling_spec_complete [OF c m a] show ?thesis
    by simp
qed

text \<open>
  Claim C4, as stated: every configuration record contains every listed hyperparameter.
  The grid of the training-stability experiment has no weight decay and no batch size.
\<close>

theorem config_part_000_lacks_hyperparameters:
  "config_part_000 \<in> set all_configs
   \<and> WeightDecay \<in> set hyperparameters \<and> BatchSize \<in> set hyperparameters
   \<and> \<not> contains_hp config_part_000 WeightDecay
   \<and> \<not> contains_hp config_part_000 BatchSize
   \<and> paths config_part_000 =
      [[''defaults''], [''defaults'', ''data''], [''optim''], [''optim'', ''num_epochs''],
       [''optim'', ''h''], [''optim'', ''h'', ''optimizer''], [''optim'', ''h'', ''T''],
       [''experiment''], [''experiment'', ''h_dims''], [''experiment'', ''h_lr''],
       [''experiment'', ''w_lr''], [''experiment'', ''optimizer_w''],
       [''experiment'', ''momentum_w''], [''experiment'', ''activation_fn''],
       [''experiment'', ''seeds''], [''model''], [''model'', ''definition''],
       [''model'', ''init_h''], [''model'', ''init_h_sd''],
       [''model'', ''constant_layer_size''], [''model'', ''init_w''], [''run''],
       [''run'', ''n_parallel''], [''run'', ''reload_data''], [''run'', ''jit'']]"
proof -
  have p: "paths config_part_000 =
      [[''defaults''], [''defaults'', ''data''], [''optim''], [''optim'', ''num_epochs''],
       [''optim'', ''h''], [''optim'', ''h'', ''optimizer''], [''optim'', ''h'', ''T''],
       [''experiment''], [''experiment'', ''h_dims''], [''experiment'', ''h_lr''],
       [''experiment'', ''w_lr''], [''experiment'', ''optimizer_w''],
       [''experiment'', ''momentum_w''], [''experiment'', ''activation_fn''],
       [''experiment'', ''seeds''], [''model''], [''model'', ''definition''],
       [''model'', ''init_h''], [''model'', ''init_h_sd''],
       [''model'', ''constant_layer_size''], [''model'', ''init_w''], [''run''],
       [''run'', ''n_parallel''], [''run'', ''reload_data''], [''run'', ''jit'']]"
    by (simp add: config_part_000_def)
  have "\<not> contains_hp config_part_000 WeightDecay"
    and "\<not> contains_hp config_part_000 BatchSize"
    by (simp_all add: contains_hp_def p)
  with p show ?thesis
    by (simp add: all_configs_def hyperparameters_def)
qed

text \<open>
  Claim C4, amended. Every configuration record is a mapping (nested: hierarchical) that
  contains the learning rates of the states and of the weights, momentum, layer
  dimensions, the activation function, the optimizer name, the number of relaxation
  steps T and the epoch count; the hypertune records contain weight decay and batch
  size as well.
\<close>

theorem config_records_hyperparameters:
  "list_all is_mapping all_configs
   \<and> list_all (\<lambda>c. list_all (contains_hp c)
        [StateLearningRate, WeightLearningRate, Momentum, LayerDimensions,
         ActivationFunction, OptimizerName, RelaxationSteps, EpochCount]) all_configs
   \<and> list_all (\<lambda>c. list_all (contains_hp c) [WeightDecay, BatchSize]) hypertune_configs"
proof -
  have "list_all is_mapping all_configs"
    by (simp add: all_configs_def hypertune_configs_def is_mapping_def config_defs)
  moreover have "list_all (\<lambda>c. list_all (contains_hp c)
        [StateLearningRate, WeightLearningRate, Momentum, LayerDimensions,
         ActivationFunction, OptimizerName, RelaxationSteps, EpochCount]) all_configs"
    by code_simp
  moreover have
    "list_all (\<lambda>c. list_all (contains_hp c) [WeightDecay, BatchSize]) hypertune_configs"
    by code_simp
  ultimately show ?thesis by simp
qed

text \<open>Each hypertune record asks for one GPU per task.\<close>

lemma hypertune_one_gpu_per_task:
  "list_all (\<lambda>c. top_level c ''gpus_per_task'' = Some (Scalar ''1'')) hypertune_configs"
  by (simp add: hypertune_configs_def top_level_def config_defs)

section \<open>Properties of the job submission script\<close>

lemma split_fields_whole:
  "list_all (\<lambda>x. \<not> (snd x = FromParam \<and> ifs_whitespace (fst x))) w
   \<Longrightarrow> split_fields cur w = (if cur @ w = [] then [] else [cur @ w])"
  by (induction w arbitrary: cur) auto

lemma expand_word_plain:
  assumes "list_all (\<lambda>x. \<not> ifs_whitespace (fst x) \<and> \<not> glob_char (fst x))
             (concat (map (expand env) w))"
    and "concat (map (expand env) w) \<noteq> []"
  shows "expand_word env glob w = [map fst (concat (map (expand env) w))]"
proof -
  let ?x = "concat (map (expand env) w)"
  from assms(1) have "list_all (\<lambda>x. \<not> (snd x = FromParam \<and> ifs_whitespace (fst x))) ?x"
    by (rule list.pred_mono_strong) simp
  then have s: "split_fields [] ?x = [?x]"
    using assms(2) by (simp add: split_fields_whole)
  from assms(1)
  have "list_all (\<lambda>x. \<not> (case x of (c, ori) \<Rightarrow> ori \<noteq> FromQuotes \<and> glob_char c)) ?x"
    by (rule list.pred_mono_strong) (simp add: split_def)
  then have "\<not> list_ex (\<lambda>(c, ori). ori \<noteq> FromQuotes \<and> glob_char c) ?x"
    by (simp add: list_all_iff list_ex_iff)
  then show ?thesis
    by (simp add: expand_word_def s pathname_expansion_def)
qed

text \<open>
  Claim C3, as stated: the driver gets exactly a study name, a GPU list, a trial count
  and a config path. The script passes two more options, \<open>--exe\<close> and \<open>--tuner\<close>.
\<close>

theorem script_passes_six_options:
  "options_of (script_argv (\<lambda>p. []) [''mnist'']) =
     [''--exe'', ''--study'', ''--gpus'', ''--n_trials'', ''--tuner'', ''--config'']
   \<and> options_of (script_argv (\<lambda>p. []) [''mnist'']) \<noteq>
     [''--study'', ''--gpus'', ''--n_trials'', ''--config'']"
  by code_simp

text \<open>
  Claim C3, amended. The script runs the tuning driver, \<open>python -m stune\<close>, once and
  hands its exit status on. For a first positional argument \<open>study\<close> free of blanks and
  pattern characters (the expansions are unquoted), the driver gets the executable
  \<open>bp_hypertune\<close>, the study name \<open>bp_study\<close>, the GPU list \<open>0,1,2,3,4,5,6,7\<close>, the trial
  count \<open>32:8\<close>, the tuner \<open>ssh\<close> and the config path \<open>bp_study_hypertune.yaml\<close>;
  further positional arguments are not read.
\<close>

theorem job_submission_argv:
  assumes "study = (case args of [] \<Rightarrow> [] | a # _ \<Rightarrow> a)" and "plain_name study"
  shows "script_argv glob args =
     [''python'', ''-m'', ''stune'', ''--exe'', ''bp_hypertune'', ''--study'', ''bp_'' @ study,
      ''--gpus'', ''0,1,2,3,4,5,6,7'', ''--n_trials'', ''32:8'', ''--tuner'', ''ssh'',
      ''--config'', ''bp_'' @ study @ ''_hypertune.yaml'']
     \<and> run_script exec glob args = exec (script_argv glob args)"
proof -
  define env where "env = (\<lambda>x. if x = ''study'' then study else [])"
  have e: "env ''study'' = study" by (simp add: env_def)
  have w: "expand_word env glob w = [map fst (concat (map (expand env) w))]"
    if "w \<in> set script_command" for w
    using that assms(2)
    by (intro expand_word_plain)
      (auto simp: script_command_def e plain_name_def ifs_whitespace_def glob_char_def
         list.pred_map comp_def)
  have "script_argv glob args = concat (map (expand_word env glob) script_command)"
    by (simp add: script_argv_def env_def assms(1) [symmetric] Let_def)
  also have "\<dots> = concat (map (\<lambda>w. [map fst (concat (map (expand env) w))]) script_command)"
    using w by (metis (no_types, lifting) map_eq_conv)
  also have "\<dots> =
     [''python'', ''-m'', ''stune'', ''--exe'', ''bp_hypertune'', ''--study'', ''bp_'' @ study,
      ''--gpus'', ''0,1,2,3,4,5,6,7'', ''--n_trials'', ''32:8'', ''--tuner'', ''ssh'',
      ''--config'', ''bp_'' @ study @ ''_hypertune.yaml'']"
    by (simp add: script_command_def e comp_def)
  finally show ?thesis by (simp add: run_script_def)
qed

theorem job_submission_argv_witness:
  "plain_name ''mnist''
   \<and> script_argv (\<lambda>p. []) [''mnist'', ''ignored''] =
     [''python'', ''-m'', ''stune'', ''--exe'', ''bp_hypertune'', ''--study'', ''bp_mnist'',
      ''--gpus'', ''0,1,2,3,4,5,6,7'', ''--n_trials'', ''32:8'', ''--tuner'', ''ssh'',
      ''--config'', ''bp_mnist_hypertune.yaml'']
   \<and> run_script (\<lambda>argv. 3) (\<lambda>p. []) [''mnist'', ''ignored''] = 3"
proof -
  have p: "plain_name ''mnist''"
    by (simp add: plain_name_def ifs_whitespace_def glob_char_def)
  have s: "''mnist'' = (case [''mnist'', ''ignored''] of [] \<Rightarrow> [] | a # _ \<Rightarrow> a)"
    by simp
  from job_submission_argv [OF s p, of "\<lambda>p. []" "\<lambda>argv. 3"] p show ?thesis
    by simp
qed

text \<open>An argument with a blank is split: the driver then gets two words more.\<close>

lemma script_argv_blank:
  "script_argv (\<lambda>p. []) [''a b''] =
     [''python'', ''-m'', ''stune'', ''--exe'', ''bp_hypertune'', ''--study'', ''bp_a'', ''b'',
      ''--gpus'', ''0,1,2,3,4,5,6,7'', ''--n_trials'', ''32:8'', ''--tuner'', ''ssh'',
      ''--config'', ''bp_a'', ''b_hypertune.yaml'']"
  by code_simp

section \<open>Properties of mark_max\<close>

lemma idxmax_acc_Some:
  "idxmax_acc best xs = Some (l, m) \<Longrightarrow>
     (best = Some (l, m) \<or> (l, Finite m) \<in> set xs)
     \<and> (\<forall>l' v. best = Some (l', v) \<longrightarrow> v \<le> m)
     \<and> (\<forall>l' v. (l', Finite v) \<in> set xs \<longrightarrow> v \<le> m)"
proof (induction best xs rule: idxmax_acc.induct)
  case (1 best)
  then show ?case by simp
next
  case (2 best l' xs)
  then show ?case by auto
next
  case (3 best l' v xs)
  then show ?case
    by (cases best) (fastforce split: if_splits)+
qed

lemma idxmax_acc_None:
  "idxmax_acc best xs = None \<longleftrightarrow> best = None \<and> (\<forall>x\<in>set xs. snd x = NaN)"
  by (induction best xs rule: idxmax_acc.induct) (auto split: option.splits)

lemma idxmax_Some:
  assumes "idxmax col = Some l"
  shows "\<exists>m. (l, Finite m) \<in> set col \<and> (\<forall>l' v. (l', Finite v) \<in> set col \<longrightarrow> v \<le> m)"
proof -
  from assms obtain m where "idxmax_acc None col = Some (l, m)"
    by (auto simp: idxmax_def)
  from idxmax_acc_Some [OF this] show ?thesis by auto
qed

lemma idxmax_None: "idxmax col = None \<longleftrightarrow> (\<forall>x\<in>set col. snd x = NaN)"
  by (simp add: idxmax_def idxmax_acc_None)

lemma df_loc_unique:
  "distinct (map fst x) \<Longrightarrow> (l, r) \<in> set x \<Longrightarrow> df_loc x l = [(l, r)]"
proof (induction x)
  case Nil
  then show ?case by simp
next
  case (Cons a x)
  show ?case
  proof (cases "a = (l, r)")
    case True
    with Cons.prems have "l \<notin> fst ` set x" by auto
    then have "filter (\<lambda>(l', r). l' = l) x = []"
      by (force simp: filter_empty_conv)
    with True show ?thesis by (simp add: df_loc_def)
  next
    case False
    with Cons.prems have in_x: "(l, r) \<in> set x" and d: "distinct (map fst x)" by auto
    from in_x have "l \<in> fst ` set x" by force
    moreover from Cons.prems(1) have "fst a \<notin> fst ` set x" by simp
    ultimately have "fst a \<noteq> l" by auto
    with Cons.IH [OF d in_x] show ?thesis
      by (cases a) (simp add: df_loc_def)
  qed
qed

lemma max_row_ok:
  assumes "distinct (map fst x)" and "\<exists>(l, r)\<in>set x. accuracy r \<noteq> NaN"
  shows "\<exists>l r. max_row x = Inr (Series r) \<and> (l, r) \<in> set x \<and> accuracy r \<noteq> NaN
           \<and> (\<forall>(l', r')\<in>set x. \<not> flt (accuracy r) (accuracy r'))"
proof -
  let ?col = "map (\<lambda>(l, r). (l, accuracy r)) x"
  from assms(2) obtain l0 r0 where "(l0, r0) \<in> set x" and "accuracy r0 \<noteq> NaN"
    by auto
  then have "(l0, accuracy r0) \<in> set ?col" and "snd (l0, accuracy r0) \<noteq> NaN"
    by force+
  then have "idxmax ?col \<noteq> None"
    unfolding idxmax_None by blast
  then obtain l where l: "idxmax ?col = Some l" by auto
  from idxmax_Some [OF l] obtain m where
    m: "(l, Finite m) \<in> set ?col" and mx: "\<And>l' v. (l', Finite v) \<in> set ?col \<Longrightarrow> v \<le> m"
    by blast
  from m obtain r where r: "(l, r) \<in> set x" and a: "accuracy r = Finite m" by auto
  have "\<not> flt (accuracy r) (accuracy r')" if "(l', r') \<in> set x" for l' r'
  proof (cases "accuracy r'")
    case (Finite v)
    with that have "(l', Finite v) \<in> set ?col" by force
    from mx [OF this] show ?thesis by (simp add: a Finite)
  next
    case NaN
    then show ?thesis by (simp add: a)
  qed
  moreover have "max_row x = Inr (Series r)"
    by (simp add: max_row_def l df_loc_unique [OF assms(1) r])
  ultimately show ?thesis using r a by auto
qed

lemma apply_groups_total:
  "\<forall>g\<in>set gs. \<exists>r. f g = Inr r \<Longrightarrow> apply_groups f gs = Inr (map (\<lambda>g. projr (f g)) gs)"
  by (induction gs) auto

lemma scatter_rows_enumerate:
  "k + length rows \<le> n \<Longrightarrow>
   scatter_rows n (map (\<lambda>(i, r). (i, h_lr r, accuracy r)) (enumerate k rows)) cv =
     (Inr (), cv @ map (\<lambda>(i, r). \<lparr>sx = h_lr r, sy = accuracy r, colour = i\<rparr>) (enumerate k rows))"
  by (induction rows arbitrary: k cv) auto

lemma map_enumerate_snd: "map (\<lambda>(i, r). f r) (enumerate n xs) = map f xs"
  by (induction xs arbitrary: n) auto

lemma group_keys_props:
  "sorted (group_keys data)" "distinct (group_keys data)"
  "set (group_keys data) = (\<lambda>(l, r). h_dim r) ` set data"
  by (simp_all add: group_keys_def)

lemma every_group_scored_iff:
  "every_group_scored data \<longleftrightarrow>
     (\<forall>(l, r)\<in>set data. \<exists>(l', r')\<in>set data. h_dim r' = h_dim r \<and> accuracy r' \<noteq> NaN)"
  by (simp add: every_group_scored_def list_all_iff list_ex_iff split_def)

lemma max_row_group:
  assumes d: "distinct (map fst data)"
    and n: "every_group_scored data"
    and k: "k \<in> set (group_keys data)"
  shows "\<exists>l r. max_row (group_of k data) = Inr (Series r) \<and> (l, r) \<in> set data \<and> h_dim r = k
           \<and> accuracy r \<noteq> NaN
           \<and> (\<forall>(l', r')\<in>set data. h_dim r' = k \<longrightarrow> \<not> flt (accuracy r) (accuracy r'))"
proof -
  let ?g = "group_of k data"
  from d have dg: "distinct (map fst ?g)"
    by (simp add: group_of_def distinct_map_filter)
  from k obtain l0 r0 where "(l0, r0) \<in> set data" and "h_dim r0 = k"
    by (auto simp: group_keys_props)
  with n obtain l1 r1 where "(l1, r1) \<in> set data" and "h_dim r1 = k" and "accuracy r1 \<noteq> NaN"
    unfolding every_group_scored_iff by fastforce
  then have "\<exists>(l, r)\<in>set ?g. accuracy r \<noteq> NaN"
    by (force simp: group_of_def)
  from max_row_ok [OF dg this] obtain l r where
    m: "max_row ?g = Inr (Series r)" and i: "(l, r) \<in> set ?g" and a: "accuracy r \<noteq> NaN"
    and b: "\<forall>(l', r')\<in>set ?g. \<not> flt (accuracy r) (accuracy r')"
    by blast
  from i have "(l, r) \<in> set data" and "h_dim r = k"
    by (auto simp: group_of_def)
  moreover from b have "\<forall>(l', r')\<in>set data. h_dim r' = k \<longrightarrow> \<not> flt (accuracy r) (accuracy r')"
    by (auto simp: group_of_def)
  ultimately show ?thesis using m a by blast
qed

lemma concat_rows_of_Series: "concat (map rows_of (map Series rs)) = rs"
  by (induction rs) auto

text \<open>
  Claim C10, as stated: on every frame with a row, one point for each value of
  \<open>h_dim\<close>. On a frame whose one row has no accuracy the call fails and draws nothing.
\<close>

theorem mark_max_fails_without_accuracy:
  "mark_max no_mix [(0, \<lparr>h_dim = 512, h_lr = Finite (1 / 100), accuracy = NaN\<rparr>)] () []
     = (Inl KeyError, [])"
  by (simp add: mark_max_def group_keys_def group_of_def max_row_def idxmax_def)

text \<open>
  Claim C10, amended. On a frame whose index labels are distinct and in which every
  \<open>h_dim\<close> group has a row with an accuracy that is a number, \<open>mark_max\<close> returns
  normally and adds exactly one point for each distinct \<open>h_dim\<close>, in ascending order of
  \<open>h_dim\<close> and with the colours 0, 1, 2, ... of the palette; the point of a group is the
  (\<open>h_lr\<close>, \<open>accuracy\<close>) pair of a row of the group that no row of the group exceeds in
  accuracy (NaN accuracies are passed over). With distinct labels every \<open>x.loc\<close> is a
  row, and \<open>mixed\<close> has no part in it.
\<close>

theorem mark_max_points:
  assumes d: "distinct (map fst data)"
    and n: "every_group_scored data"
  shows "\<exists>pts. mark_max mixed data color cv = (Inr (), cv @ pts)
           \<and> list_all2 (group_max data) (group_keys data) pts
           \<and> map colour pts = [0..<length pts]
           \<and> length pts = card ((\<lambda>(l, r). h_dim r) ` set data)"
proof -
  let ?keys = "group_keys data"
  let ?row = "\<lambda>k. hd (rows_of (projr (max_row (group_of k data))))"
  let ?rows = "map ?row ?keys"
  let ?pt = "\<lambda>(i, r). \<lparr>sx = h_lr r, sy = accuracy r, colour = i\<rparr>"
  let ?pts = "map ?pt (enumerate 0 ?rows)"
  have row: "max_row (group_of k data) = Inr (Series (?row k)) \<and> h_dim (?row k) = k
       \<and> group_max data k \<lparr>sx = h_lr (?row k), sy = accuracy (?row k), colour = c\<rparr>"
    if "k \<in> set ?keys" for k c
  proof -
    from max_row_group [OF d n that] obtain l r where
      m: "max_row (group_of k data) = Inr (Series r)" and i: "(l, r) \<in> set data"
      and h: "h_dim r = k" and a: "accuracy r \<noteq> NaN"
      and b: "\<forall>(l', r')\<in>set data. h_dim r' = k \<longrightarrow> \<not> flt (accuracy r) (accuracy r')"
      by blast
    from m have "?row k = r" by simp
    with m i h a b show ?thesis
      unfolding group_max_def by fastforce
  qed
  then have "\<forall>g\<in>set (map (\<lambda>k. group_of k data) ?keys). \<exists>r. max_row g = Inr r"
    by auto
  from apply_groups_total [OF this]
  have "apply_groups max_row (map (\<lambda>k. group_of k data) ?keys)
          = Inr (map (\<lambda>k. projr (max_row (group_of k data))) ?keys)"
    by (simp add: comp_def)
  moreover have "projr (max_row (group_of k data)) = Series (?row k)" if "k \<in> set ?keys" for k
    using row [OF that, of 0, THEN conjunct1] by (metis sum.sel(2))
  then have "map (\<lambda>k. projr (max_row (group_of k data))) ?keys = map (\<lambda>k. Series (?row k)) ?keys"
    by (intro map_cong [OF refl])
  then have "map (\<lambda>k. projr (max_row (group_of k data))) ?keys = map Series ?rows"
    by (simp only: map_map comp_def)
  ultimately
  have ag: "apply_groups max_row (map (\<lambda>k. group_of k data) ?keys) = Inr (map Series ?rows)"
    by (simp only:)
  have al: "list_all is_Series (map Series ?rows)"
    by (simp add: list_all_iff)
  have hd: "map h_dim ?rows = ?keys"
    using row by (simp add: map_idI)
  have hk: "map (\<lambda>(i, r). h_dim r) (enumerate 0 ?rows) = ?keys"
    using hd by (simp only: map_enumerate_snd)
  then have srt: "sort_key (\<lambda>(i, r). h_dim r) (enumerate 0 ?rows) = enumerate 0 ?rows"
    by (intro sort_key_id_if_sorted) (simp add: group_keys_props)
  have num: "length (remdups (map (\<lambda>(i, r). h_dim r) (enumerate 0 ?rows))) = length ?rows"
    by (simp add: hk distinct_remdups_id group_keys_props)
  have mm: "mark_max mixed data color cv = (Inr (), cv @ ?pts)"
    unfolding mark_max_def ag sum.case if_P [OF disjI1 [OF al]] concat_rows_of_Series
      Let_def srt num
    by (rule scatter_rows_enumerate) simp
  have "list_all2 (group_max data) ?keys ?pts"
    unfolding list_all2_conv_all_nth
  proof (intro conjI allI impI)
    show "length ?keys = length ?pts" by simp
  next
    fix i assume i: "i < length ?keys"
    then have "?pts ! i =
        \<lparr>sx = h_lr (?row (?keys ! i)), sy = accuracy (?row (?keys ! i)), colour = i\<rparr>"
      by (simp add: nth_enumerate_eq)
    with row [of "?keys ! i" i] i show "group_max data (?keys ! i) (?pts ! i)"
      by simp
  qed
  moreover have "map colour ?pts = [0..<length ?pts]"
    by (simp add: split_def comp_def enumerate_eq_zip)
  moreover have "length ?pts = card ((\<lambda>(l, r). h_dim r) ` set data)"
    using distinct_card [OF group_keys_props(2) [of data]]
    by (simp add: group_keys_props(3))
  ultimately show ?thesis using mm by blast
qed

text \<open>
  On the example frame: the group 256 has a NaN and 0.25, the group 512 has 0.5 and
  twice 0.75, of which the first is taken.
\<close>

lemma mark_max_example:
  "mark_max no_mix example_scores () [] =
     (Inr (), [\<lparr>sx = Finite (1 / 5), sy = Finite (1 / 4), colour = 0\<rparr>,
               \<lparr>sx = Finite (1 / 10), sy = Finite (3 / 4), colour = 1\<rparr>])"
  by code_simp

theorem mark_max_points_witness:
  "distinct (map fst example_scores) \<and> every_group_scored example_scores
   \<and> mark_max no_mix example_scores () [] =
       (Inr (), [\<lparr>sx = Finite (1 / 5), sy = Finite (1 / 4), colour = 0\<rparr>,
                 \<lparr>sx = Finite (1 / 10), sy = Finite (3 / 4), colour = 1\<rparr>])
   \<and> list_all2 (group_max example_scores) [256, 512]
       [\<lparr>sx = Finite (1 / 5), sy = Finite (1 / 4), colour = 0\<rparr>,
        \<lparr>sx = Finite (1 / 10), sy = Finite (3 / 4), colour = 1\<rparr>]"
proof -
  have d: "distinct (map fst example_scores)"
    by (simp add: example_scores_def)
  have n: "every_group_scored example_scores"
    by (simp add: every_group_scored_def example_scores_def)
  have k: "group_keys example_scores = [256, 512]"
    by code_simp
  from mark_max_points [OF d n, of no_mix "()" "[]"] obtain pts where
    "mark_max no_mix example_scores () [] = (Inr (), pts)"
    and "list_all2 (group_max example_scores) (group_keys example_scores) pts"
    by auto
  with d n k show ?thesis
    by (simp add: mark_max_example)
qed

text \<open>
  With a repeated label the function does not return: on two rows of one width under
  the label 0, \<open>x.loc[0]\<close> is the frame of both, the palette has one colour, and the
  loop draws the first row, which is not the one of the largest accuracy, and fails on
  the second.
\<close>

lemma mark_max_repeated_label:
  "mark_max mixed
     [(0, \<lparr>h_dim = 512, h_lr = Finite (1 / 100), accuracy = Finite (1 / 2)\<rparr>),
      (0, \<lparr>h_dim = 512, h_lr = Finite (1 / 10), accuracy = Finite (3 / 4)\<rparr>)] () []
   = (Inl IndexError, [\<lparr>sx = Finite (1 / 100), sy = Finite (1 / 2), colour = 0\<rparr>])"
  by (simp add: mark_max_def group_keys_def group_of_def max_row_def idxmax_def df_loc_def
      enumerate_eq_zip)

section \<open>Properties of plot_lineplots\<close>

lemma extends_refl: "extends s s"
  by (simp add: extends_def)

lemma extends_trans: "extends s s' \<Longrightarrow> extends s' s'' \<Longrightarrow> extends s s''"
  by (auto simp: extends_def)

lemma keep_rows_frame:
  "frames (snd (keep_rows a s)) (fst (keep_rows a s))
     = filter (\<lambda>(l, r). mask_bp r \<or> mask_pc r) (frames s a)"
  by (simp add: keep_rows_def df_copy_def df_select_def new_frame_def split_def Let_def)

lemma keep_rows_extends: "extends s (snd (keep_rows a s))"
  by (simp add: keep_rows_def df_copy_def df_select_def new_frame_def split_def Let_def
      extends_def)

lemma df_select_extends: "extends s (snd (df_select p a s))"
  by (simp add: df_select_def new_frame_def extends_def)

lemma plot_condition_fst:
  "fst (plot_condition add64 lineplot a n i c s) =
     (case lineplot (n, \<not> str_contains ''BP'' c, lineplot_input (panel_rows add64 c (frames s a))) of
        Some e \<Rightarrow> Inl e
      | None \<Rightarrow> Inr (panel_of add64 i c (frames s a)))"
  by (simp add: plot_condition_def panel_of_def panel_rows_def df_copy_def df_select_def
      df_set_column_def pd_concat_def new_frame_def split_def Let_def split: option.splits)

lemma plot_condition_extends: "extends s (snd (plot_condition add64 lineplot a n i c s))"
  by (simp add: plot_condition_def df_copy_def df_select_def df_set_column_def
      pd_concat_def new_frame_def split_def Let_def extends_def split: option.splits)

lemma plot_conditions_extends: "extends s (snd (plot_conditions add64 lineplot a n ics s))"
proof (induction ics arbitrary: s)
  case Nil
  then show ?case by (simp add: extends_refl)
next
  case (Cons ic ics)
  obtain i c where ic: "ic = (i, c)" by (cases ic)
  obtain r1 s1 where pc: "plot_condition add64 lineplot a n i c s = (r1, s1)"
    by (cases "plot_condition add64 lineplot a n i c s")
  obtain r2 s2 where pcs: "plot_conditions add64 lineplot a n ics s1 = (r2, s2)"
    by (cases "plot_conditions add64 lineplot a n ics s1")
  from plot_condition_extends [of s add64 lineplot a n i c] pc have e1: "extends s s1"
    by simp
  from Cons.IH [of s1] pcs have "extends s1 s2" by simp
  with e1 have e2: "extends s s2" by (rule extends_trans)
  show ?case
    using e1 e2 by (cases r1; cases r2) (simp_all add: ic pc pcs)
qed

lemma plot_conditions_fst:
  "a < lim s \<Longrightarrow>
   fst (plot_conditions add64 lineplot a n ics s) =
     (case first_error lineplot
             (map (\<lambda>(i, c). (n, \<not> str_contains ''BP'' c,
                              lineplot_input (panel_rows add64 c (frames s a)))) ics) of
        Some e \<Rightarrow> Inl e
      | None \<Rightarrow> Inr (map (\<lambda>(i, c). panel_of add64 i c (frames s a)) ics))"
proof (induction ics arbitrary: s)
  case Nil
  then show ?case by simp
next
  case (Cons ic ics)
  let ?call = "\<lambda>(i, c). (n, \<not> str_contains ''BP'' c,
                          lineplot_input (panel_rows add64 c (frames s a)))"
  obtain i c where ic: "ic = (i, c)" by (cases ic)
  obtain r1 s1 where pc: "plot_condition add64 lineplot a n i c s = (r1, s1)"
    by (cases "plot_condition add64 lineplot a n i c s")
  obtain r2 s2 where pcs: "plot_conditions add64 lineplot a n ics s1 = (r2, s2)"
    by (cases "plot_conditions add64 lineplot a n ics s1")
  from plot_condition_extends [of s add64 lineplot a n i c] pc have "extends s s1" by simp
  with Cons.prems have l1: "a < lim s1" and f1: "frames s1 a = frames s a"
    by (auto simp: extends_def)
  from plot_condition_fst [of add64 lineplot a n i c s] pc
  have r1: "r1 = (case lineplot (?call (i, c)) of
        Some e \<Rightarrow> Inl e
      | None \<Rightarrow> Inr (panel_of add64 i c (frames s a)))"
    by simp
  from Cons.IH [OF l1, unfolded f1] pcs
  have r2: "r2 = (case first_error lineplot (map ?call ics) of
        Some e \<Rightarrow> Inl e
      | None \<Rightarrow> Inr (map (\<lambda>(i, c). panel_of add64 i c (frames s a)) ics))"
    by simp
  show ?case
  proof (cases "lineplot (?call (i, c))")
    case (Some e)
    with r1 have "r1 = Inl e" by simp
    with Some show ?thesis by (simp add: ic pc)
  next
    case None
    with r1 have p: "r1 = Inr (panel_of add64 i c (frames s a))" by simp
    show ?thesis
    proof (cases "first_error lineplot (map ?call ics)")
      case (Some e)
      with r2 have "r2 = Inl e" by simp
      with None Some p show ?thesis by (simp add: ic pc pcs)
    next
      case fe: None
      with r2 have "r2 = Inr (map (\<lambda>(i, c). panel_of add64 i c (frames s a)) ics)" by simp
      with None fe p show ?thesis by (simp add: ic pc pcs)
    qed
  qed
qed

lemma plot_lineplots_fst:
  "fst (plot_lineplots add64 lineplot savefig a folder ds sfx s) =
     (case first_error lineplot (lineplot_calls add64 ds (frames s a)) of
        Some e \<Rightarrow> Inl e
      | None \<Rightarrow>
          (case savefig (os_path_join folder (plot_file_name ds sfx))
                  (figure_of add64 ds (frames s a)) of
             Some e \<Rightarrow> Inl e
           | None \<Rightarrow> Inr (os_path_join folder (plot_file_name ds sfx),
                           figure_of add64 ds (frames s a))))"
proof -
  let ?sel = "selected_rows ds (frames s a)"
  let ?n = "length (remdups (map (\<lambda>(l, r). config_hidden_dims r) ?sel))"
  obtain r2 s2 where k: "keep_rows a s = (r2, s2)"
    by (cases "keep_rows a s")
  obtain r3 s3 where d: "df_select (\<lambda>r. experiment_data_dataset r = ds) r2 s2 = (r3, s3)"
    by (cases "df_select (\<lambda>r. experiment_data_dataset r = ds) r2 s2")
  from keep_rows_frame [of a s] k
  have f2: "frames s2 r2 = filter (\<lambda>(l, r). mask_bp r \<or> mask_pc r) (frames s a)"
    by simp
  from d f2 have f3: "frames s3 r3 = ?sel" and l3: "r3 < lim s3"
    by (auto simp: df_select_def new_frame_def selected_rows_def)
  obtain ps s4 where pc: "plot_conditions add64 lineplot r3 ?n (enumerate 0 conditions) s3 = (ps, s4)"
    by (cases "plot_conditions add64 lineplot r3 ?n (enumerate 0 conditions) s3")
  have calls: "map (\<lambda>(i, c). (?n, \<not> str_contains ''BP'' c, lineplot_input (panel_rows add64 c ?sel)))
                 (enumerate 0 conditions) = lineplot_calls add64 ds (frames s a)"
    by (simp only: map_enumerate_snd lineplot_calls_def)
  from plot_conditions_fst [OF l3, of add64 lineplot ?n "enumerate 0 conditions"] pc
  have ps: "ps = (case first_error lineplot (lineplot_calls add64 ds (frames s a)) of
        Some e \<Rightarrow> Inl e
      | None \<Rightarrow> Inr (map (\<lambda>(i, c). panel_of add64 i c ?sel) (enumerate 0 conditions)))"
    by (simp only: f3 calls fst_conv)
  show ?thesis
    by (simp add: plot_lineplots_def k d pc ps f3 figure_of_def Let_def
        split: option.splits)
qed

lemma plot_lineplots_extends:
  "extends s (snd (plot_lineplots add64 lineplot savefig a folder ds sfx s))"
proof -
  let ?n = "length (sort (remdups (map (\<lambda>(l, r). config_hidden_dims r)
      (frames (snd (df_select (\<lambda>r. experiment_data_dataset r = ds) (fst (keep_rows a s))
                 (snd (keep_rows a s))))
         (fst (df_select (\<lambda>r. experiment_data_dataset r = ds) (fst (keep_rows a s))
                 (snd (keep_rows a s))))))))"
  obtain r2 s2 where k: "keep_rows a s = (r2, s2)"
    by (cases "keep_rows a s")
  obtain r3 s3 where d: "df_select (\<lambda>r. experiment_data_dataset r = ds) r2 s2 = (r3, s3)"
    by (cases "df_select (\<lambda>r. experiment_data_dataset r = ds) r2 s2")
  obtain ps s4 where pc: "plot_conditions add64 lineplot r3 ?n (enumerate 0 conditions) s3 = (ps, s4)"
    by (cases "plot_conditions add64 lineplot r3 ?n (enumerate 0 conditions) s3")
  from keep_rows_extends [of s a] k have "extends s s2" by simp
  moreover from df_select_extends [of s2 "\<lambda>r. experiment_data_dataset r = ds" r2] d
  have "extends s2 s3" by simp
  moreover from plot_conditions_extends [of s3 add64 lineplot r3 ?n "enumerate 0 conditions"] pc
  have "extends s3 s4" by simp
  ultimately have "extends s s4" by (blast intro: extends_trans)
  then show ?thesis
    using pc by (simp add: plot_lineplots_def k d Let_def split: option.splits sum.splits)
qed

lemma plot_condition_snd:
  "snd (plot_condition add64 lineplot a n i c s) = snd (plot_condition add64 lineplot' a n' i' c s)"
proof -
  obtain rc s1 where sel: "df_select (\<lambda>r. condition r = c) a s = (rc, s1)"
    by (cases "df_select (\<lambda>r. condition r = c) a s")
  obtain rc2 s2 where cp: "df_copy rc s1 = (rc2, s2)"
    by (cases "df_copy rc s1")
  obtain rc3 s4 where cc: "pd_concat rc rc2 (df_set_column (shift_h_lr add64) rc2 s2) = (rc3, s4)"
    by (cases "pd_concat rc rc2 (df_set_column (shift_h_lr add64) rc2 s2)")
  show ?thesis
    by (cases "str_contains ''BP'' c")
      (simp_all add: plot_condition_def sel cp cc Let_def split: option.splits)
qed

lemma plot_conditions_drawn:
  "\<exists>ps. fst (plot_conditions add64 (\<lambda>call. None) a n ics s) = Inr ps"
proof (induction ics arbitrary: s)
  case Nil
  show ?case by simp
next
  case (Cons ic ics)
  obtain i c where ic: "ic = (i, c)" by (cases ic)
  obtain r1 s1 where pc: "plot_condition add64 (\<lambda>call. None) a n i c s = (r1, s1)"
    by (cases "plot_condition add64 (\<lambda>call. None) a n i c s")
  obtain r2 s2 where pcs: "plot_conditions add64 (\<lambda>call. None) a n ics s1 = (r2, s2)"
    by (cases "plot_conditions add64 (\<lambda>call. None) a n ics s1")
  from plot_condition_fst [of add64 "\<lambda>call. None" a n i c s] pc
  have "r1 = Inr (panel_of add64 i c (frames s a))" by simp
  moreover from Cons.IH [of s1] pcs obtain ps where "r2 = Inr ps" by auto
  ultimately show ?case by (simp add: ic pc pcs)
qed

lemma plot_conditions_snd:
  "fst (plot_conditions add64 lineplot a n ics s) = Inr ps \<Longrightarrow>
   snd (plot_conditions add64 lineplot a n ics s)
     = snd (plot_conditions add64 (\<lambda>call. None) a n ics s)"
proof (induction ics arbitrary: s ps)
  case Nil
  show ?case by simp
next
  case (Cons ic ics)
  obtain i c where ic: "ic = (i, c)" by (cases ic)
  obtain r1 s1 where pc: "plot_condition add64 lineplot a n i c s = (r1, s1)"
    by (cases "plot_condition add64 lineplot a n i c s")
  obtain r1' s1' where pc': "plot_condition add64 (\<lambda>call. None) a n i c s = (r1', s1')"
    by (cases "plot_condition add64 (\<lambda>call. None) a n i c s")
  obtain r2 s2 where pcs: "plot_conditions add64 lineplot a n ics s1 = (r2, s2)"
    by (cases "plot_conditions add64 lineplot a n ics s1")
  obtain r2' s2' where pcs': "plot_conditions add64 (\<lambda>call. None) a n ics s1 = (r2', s2')"
    by (cases "plot_conditions add64 (\<lambda>call. None) a n ics s1")
  from plot_condition_snd [of add64 lineplot a n i c s "\<lambda>call. None" n i] pc pc'
  have s1: "s1' = s1" by simp
  from plot_condition_fst [of add64 "\<lambda>call. None" a n i c s] pc'
  have r1': "r1' = Inr (panel_of add64 i c (frames s a))" by simp
  from plot_conditions_drawn [of add64 a n ics s1] pcs' obtain ps' where r2': "r2' = Inr ps'"
    by auto
  from Cons.prems obtain p where r1: "r1 = Inr p"
    by (cases r1) (simp_all add: ic pc)
  with Cons.prems obtain ps2 where r2: "r2 = Inr ps2"
    by (cases r2) (simp_all add: ic pc pcs)
  from Cons.IH [of s1 ps2] pcs pcs' r2 have "s2' = s2" by simp
  then show ?case
    by (simp add: ic pc pc' pcs pcs' s1 r1 r1' r2 r2')
qed

lemma plot_lineplots_snd:
  assumes "fst (plot_lineplots add64 lineplot savefig a folder ds sfx s) = Inr pf"
  shows "snd (plot_lineplots add64 lineplot savefig a folder ds sfx s)
           = snd (plot_lineplots add64 (\<lambda>call. None) savefig a folder ds sfx s)"
proof -
  obtain r2 s2 where k: "keep_rows a s = (r2, s2)"
    by (cases "keep_rows a s")
  obtain r3 s3 where d: "df_select (\<lambda>r. experiment_data_dataset r = ds) r2 s2 = (r3, s3)"
    by (cases "df_select (\<lambda>r. experiment_data_dataset r = ds) r2 s2")
  let ?n = "length (remdups (map (\<lambda>(l, r). config_hidden_dims r) (frames s3 r3)))"
  obtain ps s4 where pc: "plot_conditions add64 lineplot r3 ?n (enumerate 0 conditions) s3 = (ps, s4)"
    by (cases "plot_conditions add64 lineplot r3 ?n (enumerate 0 conditions) s3")
  obtain ps' s4' where
    pc': "plot_conditions add64 (\<lambda>call. None) r3 ?n (enumerate 0 conditions) s3 = (ps', s4')"
    by (cases "plot_conditions add64 (\<lambda>call. None) r3 ?n (enumerate 0 conditions) s3")
  from assms obtain panels where ps: "ps = Inr panels"
    by (cases ps) (simp_all add: plot_lineplots_def k d pc Let_def)
  from plot_conditions_drawn [of add64 r3 ?n "enumerate 0 conditions" s3] pc'
  obtain panels' where ps': "ps' = Inr panels'" by auto
  from plot_conditions_snd [of add64 lineplot r3 ?n "enumerate 0 conditions" s3 panels] pc pc' ps
  have "s4' = s4" by simp
  then show ?thesis
    by (simp add: plot_lineplots_def k d pc pc' ps ps' Let_def split: option.splits)
qed



lemma truncate_fields:
  "condition (row.truncate r) = condition r"
  "config_h_lr (row.truncate r) = config_h_lr r"
  "experiment_data_dataset (row.truncate r) = experiment_data_dataset r"
  "config_hidden_dims (row.truncate r) = config_hidden_dims r"
  "results_accuracy (row.truncate r) = results_accuracy r"
  "mask_bp (row.truncate r) = mask_bp r"
  "mask_pc (row.truncate r) = mask_pc r"
  "row.truncate (shift_h_lr add64 r) = shift_h_lr add64 (row.truncate r)"
  by (simp_all add: row.truncate_def mask_bp_def mask_pc_def shift_h_lr_def)

lemma filter_truncate:
  assumes "\<And>r. p (row.truncate r) = q r"
  shows "map (\<lambda>(l, r). row.truncate r) (filter (\<lambda>(l, r). q r) f)
           = filter p (map (\<lambda>(l, r). row.truncate r) f)"
  by (induction f) (auto simp: assms)

lemma selected_rows_truncate:
  "map (\<lambda>(l, r). row.truncate r) (selected_rows ds f) =
     filter (\<lambda>r. experiment_data_dataset r = ds)
       (filter (\<lambda>r. mask_bp r \<or> mask_pc r) (map (\<lambda>(l, r). row.truncate r) f))"
proof -
  have a: "map (\<lambda>(l, r). row.truncate r) (filter (\<lambda>(l, r). experiment_data_dataset r = ds) g)
         = filter (\<lambda>r. experiment_data_dataset r = ds) (map (\<lambda>(l, r). row.truncate r) g)"
    for g :: "'a row_scheme frame"
    by (rule filter_truncate) (simp add: truncate_fields)
  have b: "map (\<lambda>(l, r). row.truncate r) (filter (\<lambda>(l, r). mask_bp r \<or> mask_pc r) f)
         = filter (\<lambda>r. mask_bp r \<or> mask_pc r) (map (\<lambda>(l, r). row.truncate r) f)"
    by (rule filter_truncate) (simp add: truncate_fields)
  show ?thesis
    by (simp only: selected_rows_def a b)
qed

lemma panel_rows_truncate:
  "map (\<lambda>(l, r). row.truncate r) (panel_rows add64 c g) =
     (let rc = filter (\<lambda>r. condition r = c) (map (\<lambda>(l, r). row.truncate r) g)
      in if str_contains ''BP'' c then rc @ map (shift_h_lr add64) rc else rc)"
proof -
  have a: "map (\<lambda>(l, r). row.truncate r) (filter (\<lambda>(l, r). condition r = c) g)
          = filter (\<lambda>r. condition r = c) (map (\<lambda>(l, r). row.truncate r) g)"
    by (rule filter_truncate) (simp add: truncate_fields)
  have b: "map (\<lambda>(l, r). row.truncate r) (map (\<lambda>(l, r). (l, shift_h_lr add64 r)) xs)
          = map (shift_h_lr add64) (map (\<lambda>(l, r). row.truncate r) xs)"
    for xs :: "'a row_scheme frame"
    by (induction xs) (auto simp: truncate_fields)
  show ?thesis
    by (simp only: panel_rows_def Let_def map_append a b if_distrib [of "map _"])
qed

lemma lineplot_data_truncate:
  "lineplot_data g =
     map (\<lambda>r. (config_h_lr r, results_accuracy r, config_hidden_dims r))
       (map (\<lambda>(l, r). row.truncate r) g)"
  by (simp add: lineplot_data_def split_def comp_def truncate_fields)

lemma hidden_dims_truncate:
  "map (\<lambda>(l, r). config_hidden_dims r) g =
     map config_hidden_dims (map (\<lambda>(l, r). row.truncate r) g)"
  by (simp add: split_def comp_def truncate_fields)

lemma figure_of_truncate:
  assumes "map (\<lambda>(l, r). row.truncate r) f' = map (\<lambda>(l, r). row.truncate r) f"
  shows "figure_of add64 ds f' = figure_of add64 ds f"
proof -
  have s: "map (\<lambda>(l, r). row.truncate r) (selected_rows ds f')
         = map (\<lambda>(l, r). row.truncate r) (selected_rows ds f)"
    by (simp only: selected_rows_truncate assms)
  have p: "panel_of add64 i c (selected_rows ds f') = panel_of add64 i c (selected_rows ds f)"
    for i c
    by (simp only: panel_of_def lineplot_data_truncate panel_rows_truncate s)
  have n: "map (\<lambda>(l, r). config_hidden_dims r) (selected_rows ds f')
         = map (\<lambda>(l, r). config_hidden_dims r) (selected_rows ds f)"
    by (simp only: hidden_dims_truncate s)
  show ?thesis
    by (simp only: figure_of_def p n)
qed


lemma labelled_filter_truncate:
  assumes "\<And>r. p (row.truncate r) = q r"
  shows "map (\<lambda>(l, r). (l, row.truncate r)) (filter (\<lambda>(l, r). q r) f)
           = filter (\<lambda>(l, r). p r) (map (\<lambda>(l, r). (l, row.truncate r)) f)"
  by (induction f) (auto simp: assms)

lemma selected_rows_columns:
  "map (\<lambda>(l, r). (l, row.truncate r)) (selected_rows ds f) =
     filter (\<lambda>(l, r). experiment_data_dataset r = ds)
       (filter (\<lambda>(l, r). mask_bp r \<or> mask_pc r) (map (\<lambda>(l, r). (l, row.truncate r)) f))"
proof -
  have a: "map (\<lambda>(l, r). (l, row.truncate r))
             (filter (\<lambda>(l, r). experiment_data_dataset r = ds) g)
         = filter (\<lambda>(l, r). experiment_data_dataset r = ds)
             (map (\<lambda>(l, r). (l, row.truncate r)) g)"
    for g :: "'a row_scheme frame"
    by (rule labelled_filter_truncate) (simp add: truncate_fields)
  have b: "map (\<lambda>(l, r). (l, row.truncate r)) (filter (\<lambda>(l, r). mask_bp r \<or> mask_pc r) f)
         = filter (\<lambda>(l, r). mask_bp r \<or> mask_pc r) (map (\<lambda>(l, r). (l, row.truncate r)) f)"
    by (rule labelled_filter_truncate) (simp add: truncate_fields)
  show ?thesis
    by (simp only: selected_rows_def a b)
qed

lemma panel_rows_columns:
  "map (\<lambda>(l, r). (l, row.truncate r)) (panel_rows add64 c g) =
     (let rc = filter (\<lambda>(l, r). condition r = c) (map (\<lambda>(l, r). (l, row.truncate r)) g)
      in if str_contains ''BP'' c then rc @ map (\<lambda>(l, r). (l, shift_h_lr add64 r)) rc else rc)"
proof -
  have a: "map (\<lambda>(l, r). (l, row.truncate r)) (filter (\<lambda>(l, r). condition r = c) g)
          = filter (\<lambda>(l, r). condition r = c) (map (\<lambda>(l, r). (l, row.truncate r)) g)"
    by (rule labelled_filter_truncate) (simp add: truncate_fields)
  have b: "map (\<lambda>(l, r). (l, row.truncate r)) (map (\<lambda>(l, r). (l, shift_h_lr add64 r)) xs)
          = map (\<lambda>(l, r). (l, shift_h_lr add64 r)) (map (\<lambda>(l, r). (l, row.truncate r)) xs)"
    for xs :: "'a row_scheme frame"
    by (induction xs) (auto simp: truncate_fields)
  show ?thesis
    by (simp only: panel_rows_def Let_def map_append a b if_distrib [of "map _"])
qed

lemma lineplot_input_columns:
  "lineplot_input g =
     map (\<lambda>(l, r). (l, config_h_lr r, results_accuracy r, config_hidden_dims r))
       (map (\<lambda>(l, r). (l, row.truncate r)) g)"
  by (simp add: lineplot_input_def split_def comp_def truncate_fields)

lemma hidden_dims_columns:
  "map (\<lambda>(l, r). config_hidden_dims r) g =
     map (config_hidden_dims \<circ> snd) (map (\<lambda>(l, r). (l, row.truncate r)) g)"
  by (simp add: split_def comp_def truncate_fields)

lemma lineplot_calls_columns:
  assumes "map (\<lambda>(l, r). (l, row.truncate r)) f' = map (\<lambda>(l, r). (l, row.truncate r)) f"
  shows "lineplot_calls add64 ds f' = lineplot_calls add64 ds f"
proof -
  have s: "map (\<lambda>(l, r). (l, row.truncate r)) (selected_rows ds f')
         = map (\<lambda>(l, r). (l, row.truncate r)) (selected_rows ds f)"
    by (simp only: selected_rows_columns assms)
  have i: "lineplot_input (panel_rows add64 c (selected_rows ds f'))
         = lineplot_input (panel_rows add64 c (selected_rows ds f))" for c
    by (simp only: lineplot_input_columns panel_rows_columns s)
  have n: "map (\<lambda>(l, r). config_hidden_dims r) (selected_rows ds f')
         = map (\<lambda>(l, r). config_hidden_dims r) (selected_rows ds f)"
    by (simp only: hidden_dims_columns s)
  show ?thesis
    by (simp only: lineplot_calls_def i n)
qed

lemma columns_truncate:
  assumes "map (\<lambda>(l, r). (l, row.truncate r)) f' = map (\<lambda>(l, r). (l, row.truncate r)) f"
  shows "map (\<lambda>(l, r). row.truncate r) f' = map (\<lambda>(l, r). row.truncate r) f"
proof -
  from assms have "map snd (map (\<lambda>(l, r). (l, row.truncate r)) f')
      = map snd (map (\<lambda>(l, r). (l, row.truncate r)) f)"
    by (rule arg_cong)
  then show ?thesis by (simp add: split_def comp_def)
qed


text \<open>
  On the example frames no call of \<open>sns.lineplot\<close> fails; on the frame with a BP run
  without accuracy the third does.
\<close>

lemma example_results_calls:
  "first_error sns_lineplot (lineplot_calls add_exact ''fashion_mnist'' example_results) = None"
  "first_error sns_lineplot (lineplot_calls add_exact ''two_moons'' example_results) = None"
  by code_simp+

lemma sweep_calls:
  "first_error sns_lineplot (lineplot_calls add_exact ''two_moons'' sweep_a) = None"
  "first_error sns_lineplot (lineplot_calls add_exact ''two_moons'' sweep_b) = None"
  by code_simp+






text \<open>
  Claim C5, as stated: the plot varies the accuracy curve over the weight learning rate
  and over the activation function too. Two result frames that differ in the weight
  learning rate and the activation function of every run, and in nothing else, give the
  same file with the same figure.
\<close>

theorem plot_ignores_w_lr_and_activation:
  "fst (plot_lineplots add_exact sns_lineplot savefig_ok 0 ''/artifacts'' ''two_moons'' []
         (store_of sweep_a))
     = fst (plot_lineplots add_exact sns_lineplot savefig_ok 0 ''/artifacts'' ''two_moons'' []
         (store_of sweep_b))
   \<and> fst (plot_lineplots add_exact sns_lineplot savefig_ok 0 ''/artifacts'' ''two_moons'' []
         (store_of sweep_a))
     = Inr (''/artifacts/lr-scaling-lineplot-two_moons.pdf'',
            figure_of add_exact ''two_moons'' sweep_a)
   \<and> map config_w_lr (map snd sweep_a) = [Finite (1 / 1000), Finite (1 / 1000), Finite (1 / 1000)]
   \<and> map config_w_lr (map snd sweep_b) = [Finite (1 / 100), Finite (1 / 10), Finite (1 / 100)]
   \<and> map config_activation_fn (map snd sweep_a) = [''leaky_relu'', ''leaky_relu'', ''leaky_relu'']
   \<and> map config_activation_fn (map snd sweep_b) = [''hard_tanh'', ''hard_tanh'', ''hard_tanh'']"
proof -
  have "map (\<lambda>(l, r). row.truncate r) sweep_b = map (\<lambda>(l, r). row.truncate r) sweep_a"
    by (simp add: sweep_a_def sweep_b_def row.truncate_def)
  then have "figure_of add_exact ''two_moons'' sweep_b = figure_of add_exact ''two_moons'' sweep_a"
    by (rule figure_of_truncate)
  then have "fst (plot_lineplots add_exact sns_lineplot savefig_ok 0 ''/artifacts'' ''two_moons'' []
                (store_of sweep_a))
     = fst (plot_lineplots add_exact sns_lineplot savefig_ok 0 ''/artifacts'' ''two_moons'' []
         (store_of sweep_b))"
    by (simp add: plot_lineplots_fst store_of_def savefig_ok_def sweep_calls)
  moreover
  have "fst (plot_lineplots add_exact sns_lineplot savefig_ok 0 ''/artifacts'' ''two_moons'' []
         (store_of sweep_a))
     = Inr (''/artifacts/lr-scaling-lineplot-two_moons.pdf'',
            figure_of add_exact ''two_moons'' sweep_a)"
    by (simp add: plot_lineplots_fst store_of_def savefig_ok_def sweep_calls os_path_join_def
        plot_file_name_def)
  ultimately show ?thesis
    by (simp add: sweep_a_def sweep_b_def)
qed

text \<open>
  Claim C5, amended. The figure has one panel for each of the conditions
  \<open>PC-sgd-0.9\<close>, \<open>PC-adamw-0.9\<close> and \<open>BP-sgd-0.9\<close> (the optimizer choice), titled
  \<open>PC - SGD\<close>, \<open>PC - Adam\<close> and \<open>BP\<close>. A panel plots the accuracy (y) over the state
  learning rate (x) with one curve for each hidden-layer width (hue), from the rows of
  the dataset with that condition that the selection keeps, the BP rows a second time
  with the learning rate raised by 0.1. No other column is read: frames that agree on
  the index and the five columns give the same file, and frames that agree on the five
  columns give the same figure whenever they give one (the index bears only on whether
  \<open>sns.lineplot\<close> raises), so the weight learning rate and the activation function do
  not vary the curves.
\<close>

theorem plot_lineplots_curves:
  assumes "fst (plot_lineplots add64 lineplot savefig results folder dataset sfx s)
             = Inr (path, fig)"
  shows "map p_title (axs fig) = [''PC - SGD'', ''PC - Adam'', ''BP'']
     \<and> map p_data (axs fig) =
         map (\<lambda>cond. map (\<lambda>(l, r). (config_h_lr r, results_accuracy r, config_hidden_dims r))
                       (panel_rows add64 cond (selected_rows dataset (frames s results))))
           [''PC-sgd-0.9'', ''PC-adamw-0.9'', ''BP-sgd-0.9'']
     \<and> (\<forall>(s' :: 'c row_scheme store) results'.
           map (\<lambda>(l, r). (l, row.truncate r)) (frames s' results')
             = map (\<lambda>(l, r). (l, row.truncate r)) (frames s results)
           \<longrightarrow> fst (plot_lineplots add64 lineplot savefig results' folder dataset sfx s')
                 = Inr (path, fig))
     \<and> (\<forall>(s' :: 'd row_scheme store) results' path' fig'.
           map (\<lambda>(l, r). row.truncate r) (frames s' results')
             = map (\<lambda>(l, r). row.truncate r) (frames s results)
           \<and> fst (plot_lineplots add64 lineplot savefig results' folder dataset sfx s')
                 = Inr (path', fig')
           \<longrightarrow> path' = path \<and> fig' = fig)"
proof -
  let ?p = "os_path_join folder (plot_file_name dataset sfx)"
  let ?f = "figure_of add64 dataset (frames s results)"
  from assms
  have fe: "first_error lineplot (lineplot_calls add64 dataset (frames s results)) = None"
    and sv: "savefig ?p ?f = None" and path: "path = ?p" and fig: "fig = ?f"
    by (auto simp: plot_lineplots_fst split: option.splits)
  show ?thesis
  proof (intro conjI allI impI)
    show "map p_title (axs fig) = [''PC - SGD'', ''PC - Adam'', ''BP'']"
      by (simp add: fig figure_of_def conditions_def titles_def panel_of_def enumerate_eq_zip
          upt_rec)
  next
    show "map p_data (axs fig) =
           map (\<lambda>cond. map (\<lambda>(l, r). (config_h_lr r, results_accuracy r, config_hidden_dims r))
                         (panel_rows add64 cond (selected_rows dataset (frames s results))))
             [''PC-sgd-0.9'', ''PC-adamw-0.9'', ''BP-sgd-0.9'']"
      by (simp add: fig figure_of_def conditions_def panel_of_def lineplot_data_def
          enumerate_eq_zip upt_rec)
  next
    fix s' :: "'c row_scheme store" and results'
    assume same: "map (\<lambda>(l, r). (l, row.truncate r)) (frames s' results')
             = map (\<lambda>(l, r). (l, row.truncate r)) (frames s results)"
    show "fst (plot_lineplots add64 lineplot savefig results' folder dataset sfx s')
                 = Inr (path, fig)"
      using figure_of_truncate [OF columns_truncate [OF same], of add64 dataset]
        lineplot_calls_columns [OF same, of add64 dataset] fe sv path fig
      by (simp add: plot_lineplots_fst)
  next
    fix s' :: "'d row_scheme store" and results' path' fig'
    assume same: "map (\<lambda>(l, r). row.truncate r) (frames s' results')
             = map (\<lambda>(l, r). row.truncate r) (frames s results)
           \<and> fst (plot_lineplots add64 lineplot savefig results' folder dataset sfx s')
                 = Inr (path', fig')"
    from figure_of_truncate [OF same [THEN conjunct1], of add64 dataset]
      same [THEN conjunct2] path fig
    have "path' = path \<and> fig' = fig"
      by (auto simp: plot_lineplots_fst split: option.splits)
    then show "path' = path" and "fig' = fig" by simp_all
  qed
qed

text \<open>
  On the first of the two frames above; the second, which differs in the two other
  columns, gives the same file, and so does the second under the labels 3, 4, 5.
\<close>

theorem plot_lineplots_curves_witness:
  "fst (plot_lineplots add_exact sns_lineplot savefig_ok 0 ''/artifacts'' ''two_moons'' []
         (store_of sweep_a))
     = Inr (''/artifacts/lr-scaling-lineplot-two_moons.pdf'',
            figure_of add_exact ''two_moons'' sweep_a)
   \<and> map p_title (axs (figure_of add_exact ''two_moons'' sweep_a))
       = [''PC - SGD'', ''PC - Adam'', ''BP'']
   \<and> map p_data (axs (figure_of add_exact ''two_moons'' sweep_a)) =
         [[(Finite (1 / 100), Finite (1 / 2), 512)],
          [(Finite (1 / 10), Finite (3 / 4), 1024)],
          [(Finite 1, Finite (1 / 4), 512),
           (Finite (39631676720860365 / 36028797018963968), Finite (1 / 4), 512)]]
   \<and> map (\<lambda>(l, r). (l, row.truncate r)) (frames (store_of sweep_b) 0)
       = map (\<lambda>(l, r). (l, row.truncate r)) (frames (store_of sweep_a) 0)
   \<and> fst (plot_lineplots add_exact sns_lineplot savefig_ok 0 ''/artifacts'' ''two_moons'' []
           (store_of sweep_b))
     = Inr (''/artifacts/lr-scaling-lineplot-two_moons.pdf'',
            figure_of add_exact ''two_moons'' sweep_a)
   \<and> map (\<lambda>(l, r). row.truncate r) (frames (store_of (map (\<lambda>(l, r). (l + 3, r)) sweep_b)) 0)
       = map (\<lambda>(l, r). row.truncate r) (frames (store_of sweep_a) 0)
   \<and> fst (plot_lineplots add_exact sns_lineplot savefig_ok 0 ''/artifacts'' ''two_moons'' []
           (store_of (map (\<lambda>(l, r). (l + 3, r)) sweep_b)))
     = Inr (''/artifacts/lr-scaling-lineplot-two_moons.pdf'',
            figure_of add_exact ''two_moons'' (map (\<lambda>(l, r). (l + 3, r)) sweep_b))
   \<and> figure_of add_exact ''two_moons'' (map (\<lambda>(l, r). (l + 3, r)) sweep_b)
     = figure_of add_exact ''two_moons'' sweep_a"
proof -
  let ?f = "figure_of add_exact ''two_moons'' sweep_a"
  let ?c = "map (\<lambda>(l, r). (l + 3, r)) sweep_b"
  have r: "fst (plot_lineplots add_exact sns_lineplot savefig_ok 0 ''/artifacts'' ''two_moons'' []
            (store_of sweep_a))
         = Inr (''/artifacts/lr-scaling-lineplot-two_moons.pdf'', ?f)"
    by (simp add: plot_lineplots_fst savefig_ok_def store_of_def os_path_join_def
        plot_file_name_def sweep_calls)
  have d: "map (\<lambda>cond. map (\<lambda>(l, r). (config_h_lr r, results_accuracy r, config_hidden_dims r))
                       (panel_rows add_exact cond
                          (selected_rows ''two_moons'' (frames (store_of sweep_a) 0))))
           [''PC-sgd-0.9'', ''PC-adamw-0.9'', ''BP-sgd-0.9'']
         = [[(Finite (1 / 100), Finite (1 / 2), 512)],
          [(Finite (1 / 10), Finite (3 / 4), 1024)],
          [(Finite 1, Finite (1 / 4), 512),
           (Finite (39631676720860365 / 36028797018963968), Finite (1 / 4), 512)]]"
    by code_simp
  have e: "map (\<lambda>(l, r). (l, row.truncate r)) (frames (store_of sweep_b) 0)
       = map (\<lambda>(l, r). (l, row.truncate r)) (frames (store_of sweep_a) 0)"
    by (simp add: store_of_def sweep_a_def sweep_b_def row.truncate_def)
  have e': "map (\<lambda>(l, r). row.truncate r) (frames (store_of ?c) 0)
       = map (\<lambda>(l, r). row.truncate r) (frames (store_of sweep_a) 0)"
    by (simp add: store_of_def sweep_a_def sweep_b_def row.truncate_def)
  have cc: "first_error sns_lineplot (lineplot_calls add_exact ''two_moons'' ?c) = None"
    by code_simp
  have r': "fst (plot_lineplots add_exact sns_lineplot savefig_ok 0 ''/artifacts'' ''two_moons'' []
           (store_of ?c))
     = Inr (''/artifacts/lr-scaling-lineplot-two_moons.pdf'',
            figure_of add_exact ''two_moons'' ?c)"
    by (simp add: plot_lineplots_fst savefig_ok_def store_of_def os_path_join_def
        plot_file_name_def cc)
  from plot_lineplots_curves [OF r]
  have t: "map p_title (axs ?f) = [''PC - SGD'', ''PC - Adam'', ''BP'']"
    and p: "map p_data (axs ?f) =
         map (\<lambda>cond. map (\<lambda>(l, r). (config_h_lr r, results_accuracy r, config_hidden_dims r))
                       (panel_rows add_exact cond
                          (selected_rows ''two_moons'' (frames (store_of sweep_a) 0))))
           [''PC-sgd-0.9'', ''PC-adamw-0.9'', ''BP-sgd-0.9'']"
    and i: "\<And>(s' :: sweep_row store) results'.
           map (\<lambda>(l, r). (l, row.truncate r)) (frames s' results')
             = map (\<lambda>(l, r). (l, row.truncate r)) (frames (store_of sweep_a) 0)
           \<Longrightarrow> fst (plot_lineplots add_exact sns_lineplot savefig_ok results' ''/artifacts''
                      ''two_moons'' [] s')
                 = Inr (''/artifacts/lr-scaling-lineplot-two_moons.pdf'', ?f)"
    and j: "\<And>(s' :: sweep_row store) results' path' fig'.
           map (\<lambda>(l, r). row.truncate r) (frames s' results')
             = map (\<lambda>(l, r). row.truncate r) (frames (store_of sweep_a) 0)
           \<and> fst (plot_lineplots add_exact sns_lineplot savefig_ok results' ''/artifacts''
                      ''two_moons'' [] s')
                 = Inr (path', fig')
           \<Longrightarrow> path' = ''/artifacts/lr-scaling-lineplot-two_moons.pdf'' \<and> fig' = ?f"
    by blast+
  from p have p': "map p_data (axs ?f) =
         [[(Finite (1 / 100), Finite (1 / 2), 512)],
          [(Finite (1 / 10), Finite (3 / 4), 1024)],
          [(Finite 1, Finite (1 / 4), 512),
           (Finite (39631676720860365 / 36028797018963968), Finite (1 / 4), 512)]]"
    by (simp only: d)
  from j [OF conjI, OF e' r'] have same: "figure_of add_exact ''two_moons'' ?c = ?f"
    by simp
  from r t p' e i [OF e] e' r' same show ?thesis by (intro conjI)
qed

lemma selected_rows_subset:
  "(l, r) \<in> set (selected_rows ds f) \<Longrightarrow> (l, r) \<in> set f \<and> (mask_bp r \<or> mask_pc r)"
  by (auto simp: selected_rows_def)

lemma panel_rows_point:
  assumes "p \<in> set (lineplot_data (panel_rows add64 c g))"
  shows "\<exists>(l, r)\<in>set g.
           p = (config_h_lr r, results_accuracy r, config_hidden_dims r)
           \<or> p = (add64 (config_h_lr r) lit_0_1, results_accuracy r, config_hidden_dims r)"
proof -
  from assms obtain l r where m: "(l, r) \<in> set (panel_rows add64 c g)"
    and p: "p = (config_h_lr r, results_accuracy r, config_hidden_dims r)"
    by (auto simp: lineplot_data_def)
  from m consider "(l, r) \<in> set g"
    | r0 where "(l, r0) \<in> set g" and "r = shift_h_lr add64 r0"
    by (auto simp: panel_rows_def Let_def split: if_splits)
  then show ?thesis
  proof cases
    case 1
    with p show ?thesis by blast
  next
    case 2
    with p have "p = (add64 (config_h_lr r0) lit_0_1, results_accuracy r0, config_hidden_dims r0)"
      by (simp add: shift_h_lr_def)
    with 2 show ?thesis by blast
  qed
qed

text \<open>
  Claim C8. The selection at the start of \<open>plot_lineplots\<close> keeps, in their order, the
  rows whose condition contains \<open>BP\<close>, whatever their state learning rate, and the rows
  whose condition contains \<open>PC\<close> and whose \<open>config.h_lr\<close> is below 0.3 (a condition with
  both falls under the first); it excludes all others. Every point of the figure comes
  from a row that is kept: it is the learning rate, accuracy and width of such a row, or
  that with the learning rate raised by 0.1 (the second copy of the BP rows).
\<close>

theorem plot_lineplots_keeps:
  "frames (snd (keep_rows results s)) (fst (keep_rows results s)) =
     filter (\<lambda>(l, r). str_contains ''BP'' (condition r)
                \<or> (str_contains ''PC'' (condition r) \<and> flt (config_h_lr r) lit_0_3))
       (frames s results)
   \<and> (fst (plot_lineplots add64 lineplot savefig results folder dataset sfx s) = Inr (path, fig)
        \<and> p \<in> set (concat (map p_data (axs fig)))
      \<longrightarrow> (\<exists>(l, r)\<in>set (frames s results).
             (str_contains ''BP'' (condition r)
                \<or> (str_contains ''PC'' (condition r) \<and> flt (config_h_lr r) lit_0_3))
             \<and> (p = (config_h_lr r, results_accuracy r, config_hidden_dims r)
                \<or> p = (add64 (config_h_lr r) lit_0_1, results_accuracy r,
                       config_hidden_dims r))))"
proof (intro conjI impI)
  show "frames (snd (keep_rows results s)) (fst (keep_rows results s)) =
     filter (\<lambda>(l, r). str_contains ''BP'' (condition r)
                \<or> (str_contains ''PC'' (condition r) \<and> flt (config_h_lr r) lit_0_3))
       (frames s results)"
    by (simp add: keep_rows_frame mask_bp_def mask_pc_def)
next
  let ?sel = "selected_rows dataset (frames s results)"
  assume a: "fst (plot_lineplots add64 lineplot savefig results folder dataset sfx s) = Inr (path, fig)
        \<and> p \<in> set (concat (map p_data (axs fig)))"
  then have "fig = figure_of add64 dataset (frames s results)"
    by (auto simp: plot_lineplots_fst split: option.splits)
  with a obtain c where "p \<in> set (lineplot_data (panel_rows add64 c ?sel))"
    by (auto simp: figure_of_def panel_of_def)
  from panel_rows_point [OF this] obtain l r where "(l, r) \<in> set ?sel"
    and p: "p = (config_h_lr r, results_accuracy r, config_hidden_dims r)
           \<or> p = (add64 (config_h_lr r) lit_0_1, results_accuracy r, config_hidden_dims r)"
    by blast
  with selected_rows_subset [of l r dataset "frames s results"]
  have "(l, r) \<in> set (frames s results)"
    and "str_contains ''BP'' (condition r)
           \<or> (str_contains ''PC'' (condition r) \<and> flt (config_h_lr r) lit_0_3)"
    by (auto simp: mask_bp_def mask_pc_def)
  with p show "\<exists>(l, r)\<in>set (frames s results).
             (str_contains ''BP'' (condition r)
                \<or> (str_contains ''PC'' (condition r) \<and> flt (config_h_lr r) lit_0_3))
             \<and> (p = (config_h_lr r, results_accuracy r, config_hidden_dims r)
                \<or> p = (add64 (config_h_lr r) lit_0_1, results_accuracy r,
                       config_hidden_dims r))"
    by blast
qed

text \<open>
  Of the four example rows the second, a PC row with the learning rate 1, is dropped;
  the BP row with the learning rate 1 stays.
\<close>

theorem plot_lineplots_keeps_witness:
  "frames (snd (keep_rows 0 (store_of example_results)))
       (fst (keep_rows 0 (store_of example_results))) =
     [(0, \<lparr>condition = ''PC-sgd-0.9'', config_h_lr = Finite (1 / 100),
           experiment_data_dataset = ''two_moons'', config_hidden_dims = 512,
           results_accuracy = Finite (1 / 2)\<rparr>),
      (2, \<lparr>condition = ''BP-sgd-0.9'', config_h_lr = Finite 1,
           experiment_data_dataset = ''two_moons'', config_hidden_dims = 1024,
           results_accuracy = Finite (3 / 4)\<rparr>),
      (3, \<lparr>condition = ''PC-adamw-0.9'', config_h_lr = Finite (1 / 10),
           experiment_data_dataset = ''fashion_mnist'', config_hidden_dims = 512,
           results_accuracy = Finite (1 / 2)\<rparr>)]
   \<and> fst (plot_lineplots add_exact sns_lineplot savefig_ok 0 ''/artifacts'' ''two_moons'' []
           (store_of example_results))
       = Inr (''/artifacts/lr-scaling-lineplot-two_moons.pdf'',
              figure_of add_exact ''two_moons'' example_results)
   \<and> (Finite 1, Finite (3 / 4), 1024)
       \<in> set (concat (map p_data (axs (figure_of add_exact ''two_moons'' example_results))))
   \<and> (\<exists>(l, r)\<in>set (frames (store_of example_results) 0).
         (str_contains ''BP'' (condition r)
            \<or> (str_contains ''PC'' (condition r) \<and> flt (config_h_lr r) lit_0_3))
         \<and> ((Finite 1, Finite (3 / 4), 1024)
               = (config_h_lr r, results_accuracy r, config_hidden_dims r)
            \<or> (Finite 1, Finite (3 / 4), 1024)
               = (add_exact (config_h_lr r) lit_0_1, results_accuracy r,
                  config_hidden_dims r)))"
proof -
  have k: "filter (\<lambda>(l, r). str_contains ''BP'' (condition r)
                \<or> (str_contains ''PC'' (condition r) \<and> flt (config_h_lr r) lit_0_3))
       (frames (store_of example_results) 0) =
     [(0, \<lparr>condition = ''PC-sgd-0.9'', config_h_lr = Finite (1 / 100),
           experiment_data_dataset = ''two_moons'', config_hidden_dims = 512,
           results_accuracy = Finite (1 / 2)\<rparr>),
      (2, \<lparr>condition = ''BP-sgd-0.9'', config_h_lr = Finite 1,
           experiment_data_dataset = ''two_moons'', config_hidden_dims = 1024,
           results_accuracy = Finite (3 / 4)\<rparr>),
      (3, \<lparr>condition = ''PC-adamw-0.9'', config_h_lr = Finite (1 / 10),
           experiment_data_dataset = ''fashion_mnist'', config_hidden_dims = 512,
           results_accuracy = Finite (1 / 2)\<rparr>)]"
    by code_simp
  have r: "fst (plot_lineplots add_exact sns_lineplot savefig_ok 0 ''/artifacts'' ''two_moons'' []
           (store_of example_results))
       = Inr (''/artifacts/lr-scaling-lineplot-two_moons.pdf'',
              figure_of add_exact ''two_moons'' example_results)"
    by (simp add: plot_lineplots_fst savefig_ok_def store_of_def os_path_join_def
        plot_file_name_def example_results_calls)
  have m: "(Finite 1, Finite (3 / 4), 1024)
       \<in> set (concat (map p_data (axs (figure_of add_exact ''two_moons'' example_results))))"
    by code_simp
  note t = plot_lineplots_keeps [of 0 "store_of example_results" add_exact sns_lineplot savefig_ok
      "''/artifacts''" "''two_moons''" "[]" "''/artifacts/lr-scaling-lineplot-two_moons.pdf''"
      "figure_of add_exact ''two_moons'' example_results" "(Finite 1, Finite (3 / 4), 1024)"]
  from t [THEN conjunct1] k
  have "frames (snd (keep_rows 0 (store_of example_results)))
       (fst (keep_rows 0 (store_of example_results))) =
     [(0, \<lparr>condition = ''PC-sgd-0.9'', config_h_lr = Finite (1 / 100),
           experiment_data_dataset = ''two_moons'', config_hidden_dims = 512,
           results_accuracy = Finite (1 / 2)\<rparr>),
      (2, \<lparr>condition = ''BP-sgd-0.9'', config_h_lr = Finite 1,
           experiment_data_dataset = ''two_moons'', config_hidden_dims = 1024,
           results_accuracy = Finite (3 / 4)\<rparr>),
      (3, \<lparr>condition = ''PC-adamw-0.9'', config_h_lr = Finite (1 / 10),
           experiment_data_dataset = ''fashion_mnist'', config_hidden_dims = 512,
           results_accuracy = Finite (1 / 2)\<rparr>)]"
    by (simp only:)
  moreover from t [THEN conjunct2, rule_format, OF conjI, OF r m]
  have "\<exists>(l, r)\<in>set (frames (store_of example_results) 0).
         (str_contains ''BP'' (condition r)
            \<or> (str_contains ''PC'' (condition r) \<and> flt (config_h_lr r) lit_0_3))
         \<and> ((Finite 1, Finite (3 / 4), 1024)
               = (config_h_lr r, results_accuracy r, config_hidden_dims r)
            \<or> (Finite 1, Finite (3 / 4), 1024)
               = (add_exact (config_h_lr r) lit_0_1, results_accuracy r,
                  config_hidden_dims r))" .
  ultimately show ?thesis using r m by (intro conjI)
qed

text \<open>
  Claim C9. \<open>plot_lineplots\<close> changes no frame that exists when it is called, the
  caller's among them: it selects from a copy, and the column it overwrites belongs to a
  copy of the BP rows that it made itself.
\<close>

theorem plot_lineplots_leaves_frames:
  assumes "b < lim s"
  shows "frames (snd (plot_lineplots add64 lineplot savefig results folder dataset sfx s)) b
           = frames s b"
  using plot_lineplots_extends [of s add64 lineplot savefig results folder dataset sfx] assms
  by (simp add: extends_def)

text \<open>
  On the example the call makes eight frames; the one at the reference 7 is the copy
  whose learning rates it raised.
\<close>

theorem plot_lineplots_leaves_frames_witness:
  "0 < lim (store_of example_results)
   \<and> frames (snd (plot_lineplots add_exact sns_lineplot savefig_ok 0 ''/artifacts'' ''two_moons'' []
                    (store_of example_results))) 0 = example_results
   \<and> frames (snd (plot_lineplots add_exact sns_lineplot savefig_ok 0 ''/artifacts'' ''two_moons'' []
                    (store_of example_results))) 7
       = [(2, \<lparr>condition = ''BP-sgd-0.9'',
               config_h_lr = Finite (39631676720860365 / 36028797018963968),
               experiment_data_dataset = ''two_moons'', config_hidden_dims = 1024,
               results_accuracy = Finite (3 / 4)\<rparr>)]
   \<and> lim (snd (plot_lineplots add_exact sns_lineplot savefig_ok 0 ''/artifacts'' ''two_moons'' []
                 (store_of example_results))) = 9"
proof -
  have l: "0 < lim (store_of example_results)"
    by (simp add: store_of_def)
  have "fst (plot_lineplots add_exact sns_lineplot savefig_ok 0 ''/artifacts'' ''two_moons'' []
           (store_of example_results))
       = Inr (''/artifacts/lr-scaling-lineplot-two_moons.pdf'',
              figure_of add_exact ''two_moons'' example_results)"
    by (simp add: plot_lineplots_fst savefig_ok_def store_of_def os_path_join_def
        plot_file_name_def example_results_calls)
  then have s: "snd (plot_lineplots add_exact sns_lineplot savefig_ok 0 ''/artifacts'' ''two_moons''
                    [] (store_of example_results))
       = snd (plot_lineplots add_exact (\<lambda>call. None) savefig_ok 0 ''/artifacts'' ''two_moons''
                    [] (store_of example_results))"
    by (rule plot_lineplots_snd)
  have "frames (snd (plot_lineplots add_exact sns_lineplot savefig_ok 0 ''/artifacts'' ''two_moons'' []
                    (store_of example_results))) 7
       = [(2, \<lparr>condition = ''BP-sgd-0.9'',
               config_h_lr = Finite (39631676720860365 / 36028797018963968),
               experiment_data_dataset = ''two_moons'', config_hidden_dims = 1024,
               results_accuracy = Finite (3 / 4)\<rparr>)]"
    unfolding s
    by (simp add: plot_lineplots_def keep_rows_def plot_condition_def df_copy_def
        df_select_def df_set_column_def pd_concat_def new_frame_def store_of_def
        conditions_def enumerate_eq_zip upt_rec str_contains_def sublist_code savefig_ok_def
        split_def Let_def example_results_def mask_bp_def mask_pc_def lit_0_3_def
        lit_0_1_def shift_h_lr_def add_exact_def)
  moreover have "lim (snd (plot_lineplots add_exact sns_lineplot savefig_ok 0 ''/artifacts'' ''two_moons'' []
                 (store_of example_results))) = 9"
    unfolding s
    by (simp add: plot_lineplots_def keep_rows_def plot_condition_def df_copy_def
        df_select_def df_set_column_def pd_concat_def new_frame_def store_of_def
        conditions_def enumerate_eq_zip upt_rec str_contains_def sublist_code savefig_ok_def
        split_def Let_def)
  moreover have "frames (store_of example_results) 0 = example_results"
    by (simp add: store_of_def)
  ultimately show ?thesis
    using l plot_lineplots_leaves_frames [OF l, of add_exact sns_lineplot savefig_ok 0 "''/artifacts''"
        "''two_moons''" "[]"]
    by (simp only:)
qed

end
